theory Spec2Isabelle
  imports Complex_Main "HOL-Library.Sublist" "HOL-Library.AList"
begin

section \<open>JavaScript strings\<close>

text \<open>
  A JavaScript string is a sequence of UTF-16 code units; regular expressions without the
  \<open>u\<close> flag, \<open>indexOf\<close>, \<open>slice\<close> and \<open>length\<close> all work on code units. A code unit is
  modelled as a natural number, a string as a list of them. \<open>js\<close> reads an ASCII literal.
\<close>

type_synonym jschar = nat
type_synonym jsstring = "jschar list"

definition js :: "string \<Rightarrow> jsstring" where
  "js s = map of_char s"

abbreviation LBRACE :: jschar where "LBRACE \<equiv> 123"
abbreviation RBRACE :: jschar where "RBRACE \<equiv> 125"
abbreviation LBRACK :: jschar where "LBRACK \<equiv> 91"
abbreviation RBRACK :: jschar where "RBRACK \<equiv> 93"
abbreviation DQUOTE :: jschar where "DQUOTE \<equiv> 34"
abbreviation BACKSLASH :: jschar where "BACKSLASH \<equiv> 92"
abbreviation BACKTICK :: jschar where "BACKTICK \<equiv> 96"
abbreviation NEWLINE :: jschar where "NEWLINE \<equiv> 10"

text \<open>
  The class \<open>\s\<close> of a regular expression and the characters removed by \<open>trim()\<close> are the
  same set: ECMAScript WhiteSpace (TAB, VT, FF, SP, NBSP, ZWNBSP and the Unicode space
  separators) together with the four line terminators.
\<close>

definition isLineTerminator :: "jschar \<Rightarrow> bool" where
  "isLineTerminator c = (c = 10 \<or> c = 13 \<or> c = 8232 \<or> c = 8233)"

definition isSpace :: "jschar \<Rightarrow> bool" where
  "isSpace c =
     (c = 9 \<or> c = 10 \<or> c = 11 \<or> c = 12 \<or> c = 13 \<or> c = 32 \<or> c = 160 \<or> c = 5760 \<or>
      (8192 \<le> c \<and> c \<le> 8202) \<or> c = 8232 \<or> c = 8233 \<or> c = 8239 \<or> c = 8287 \<or>
      c = 12288 \<or> c = 65279)"

definition trimStart :: "jsstring \<Rightarrow> jsstring" where
  "trimStart s = dropWhile isSpace s"

definition trim :: "jsstring \<Rightarrow> jsstring" where
  "trim s = rev (dropWhile isSpace (rev (dropWhile isSpace s)))"

text \<open>\<open>s.slice(a, b)\<close> for indices \<open>0 \<le> a\<close>, \<open>0 \<le> b\<close>: both are clamped to the length.\<close>

definition slice :: "jsstring \<Rightarrow> nat \<Rightarrow> nat \<Rightarrow> jsstring" where
  "slice s a b = take (b - a) (drop a s)"

text \<open>\<open>s.includes(sub)\<close>.\<close>

fun includesStr :: "jsstring \<Rightarrow> jsstring \<Rightarrow> bool" where
  "includesStr [] sub = (sub = [])"
| "includesStr (c # cs) sub = (prefix sub (c # cs) \<or> includesStr cs sub)"

text \<open>
  Case-insensitive matching (flag \<open>i\<close>, no flag \<open>u\<close>) of an ASCII letter of a pattern: the
  ECMAScript Canonicalize operation never maps a code unit above 127 to one below 128, so
  an ASCII letter matches exactly its two ASCII cases.
\<close>

definition lowerAscii :: "jschar \<Rightarrow> jschar" where
  "lowerAscii c = (if 65 \<le> c \<and> c \<le> 90 then c + 32 else c)"

section \<open>JSON values\<close>

text \<open>
  The result of \<open>JSON.parse\<close>. Numbers are JavaScript doubles, kept abstract in \<open>'n\<close>; an
  object is the list of its own properties, whose keys are distinct.
\<close>

datatype 'n json =
    JNull
  | JBool bool
  | JNum 'n
  | JStr jsstring
  | JArr "'n json list"
  | JObj "(jsstring \<times> 'n json) list"

section \<open>The JSON extractor (utils/json.ts)\<close>

text \<open>
  The fenced-block pattern is three backticks, an optional tag \<open>json\<close>, \<open>\s*\<close>, a lazy group
  \<open>([\s\S]*?)\<close> and three backticks, under flag \<open>i\<close>. The characters the optional tag and
  \<open>\s*\<close> consume are never backticks, so backtracking over them cannot reach a closing fence
  that the greedy choice misses: the match is the first opening fence, the tag when
  present, the longest run of white space, and the text up to the next fence.
  \<open>fencedGroup\<close> is capture group 1 of that match (\<open>None\<close> when the pattern does not match).
\<close>

definition fence :: jsstring where
  "fence = [BACKTICK, BACKTICK, BACKTICK]"

fun afterFence :: "jsstring \<Rightarrow> jsstring option" where
  "afterFence [] = None"
| "afterFence (c # cs) =
     (if prefix fence (c # cs) then Some (drop 3 (c # cs)) else afterFence cs)"

fun beforeFence :: "jsstring \<Rightarrow> jsstring option" where
  "beforeFence [] = None"
| "beforeFence (c # cs) =
     (if prefix fence (c # cs) then Some [] else map_option ((#) c) (beforeFence cs))"

definition skipJsonTag :: "jsstring \<Rightarrow> jsstring" where
  "skipJsonTag s = (if map lowerAscii (take 4 s) = js ''json'' then drop 4 s else s)"

definition fencedGroup :: "jsstring \<Rightarrow> jsstring option" where
  "fencedGroup content =
     (case afterFence content of
        None \<Rightarrow> None
      | Some r \<Rightarrow> beforeFence (dropWhile isSpace (skipJsonTag r)))"

text \<open>
  \<open>findJsonStart(open)\<close>: the first index of \<open>open\<close> whose next character after white space
  is an opening brace or bracket (for \<open>[\<close>) or a double quote (for \<open>{\<close>). The argument \<open>i\<close> is
  the index of the head of the remaining text; \<open>nextChar\<close> is \<open>undefined\<close> at the end of the
  text, which satisfies neither test.
\<close>

definition startOk :: "jschar \<Rightarrow> jsstring \<Rightarrow> bool" where
  "startOk opn rest =
     (case dropWhile isSpace rest of
        [] \<Rightarrow> False
      | nextChar # _ \<Rightarrow>
          (opn = LBRACK \<and> (nextChar = LBRACE \<or> nextChar = LBRACK)) \<or>
          (opn = LBRACE \<and> nextChar = DQUOTE))"

fun findJsonStartFrom :: "jschar \<Rightarrow> jsstring \<Rightarrow> nat \<Rightarrow> nat option" where
  "findJsonStartFrom opn [] i = None"
| "findJsonStartFrom opn (c # rest) i =
     (if c = opn \<and> startOk opn rest then Some i else findJsonStartFrom opn rest (i + 1))"

definition findJsonStart :: "jsstring \<Rightarrow> jschar \<Rightarrow> nat option" where
  "findJsonStart content opn = findJsonStartFrom opn content 0"

text \<open>
  \<open>findMatchingBracket(start, open, close)\<close>: the loop over \<open>i\<close> from \<open>start\<close>, with its three
  variables \<open>depth\<close>, \<open>inString\<close> and \<open>escape\<close>.
\<close>

fun matchLoop :: "jschar \<Rightarrow> jschar \<Rightarrow> jsstring \<Rightarrow> nat \<Rightarrow> int \<Rightarrow> bool \<Rightarrow> bool \<Rightarrow> nat option" where
  "matchLoop opn cls [] i depth inString escape = None"
| "matchLoop opn cls (char # rest) i depth inString escape =
     (if inString then
        (if escape then matchLoop opn cls rest (i + 1) depth True False
         else if char = BACKSLASH then matchLoop opn cls rest (i + 1) depth True True
         else if char = DQUOTE then matchLoop opn cls rest (i + 1) depth False False
         else matchLoop opn cls rest (i + 1) depth True escape)
      else if char = DQUOTE then matchLoop opn cls rest (i + 1) depth True escape
      else if char = opn then matchLoop opn cls rest (i + 1) (depth + 1) False escape
      else if char = cls then
        (if depth - 1 = 0 then Some i
         else matchLoop opn cls rest (i + 1) (depth - 1) False escape)
      else matchLoop opn cls rest (i + 1) depth False escape)"

definition findMatchingBracket :: "jsstring \<Rightarrow> nat \<Rightarrow> jschar \<Rightarrow> jschar \<Rightarrow> nat option" where
  "findMatchingBracket content start opn cls =
     matchLoop opn cls (drop start content) start 0 False False"

definition bracketCandidate :: "jsstring \<Rightarrow> jschar \<Rightarrow> jschar \<Rightarrow> jsstring option" where
  "bracketCandidate content opn cls =
     (case findJsonStart content opn of
        None \<Rightarrow> None
      | Some start \<Rightarrow>
          (case findMatchingBracket content start opn cls of
             None \<Rightarrow> None
           | Some end \<Rightarrow> Some (trim (slice content start (end + 1)))))"

definition extractJsonBlock :: "jsstring \<Rightarrow> jsstring option" where
  "extractJsonBlock content =
     (case fencedGroup content of
        Some (c # cs) \<Rightarrow> Some (trim (c # cs))
      | _ \<Rightarrow>
          (case bracketCandidate content LBRACK RBRACK of
             Some arr \<Rightarrow> Some arr
           | None \<Rightarrow> bracketCandidate content LBRACE RBRACE))"

text \<open>
  A fenced code block around a text: the opening fence, the tag \<open>json\<close> or no tag, a line
  break, the text, a line break and the closing fence.
\<close>

definition fencedBlock :: "bool \<Rightarrow> jsstring \<Rightarrow> jsstring" where
  "fencedBlock tagged s =
     fence @ (if tagged then js ''json'' else []) @ [NEWLINE] @ s @ [NEWLINE] @ fence"

section \<open>Fallback models (utils/fallback-models.ts)\<close>

definition DEFAULT_FALLBACK_MODELS :: "jsstring list" where
  "DEFAULT_FALLBACK_MODELS =
     [js ''mistralai/mistral-7b-instruct:free'',
      js ''deepseek/deepseek-r1-0528:free'',
      js ''meta-llama/llama-3.1-8b-instruct:free'',
      js ''google/gemma-2-9b-it:free'',
      js ''qwen/qwen-2.5-7b-instruct:free'']"

text \<open>
  \<open>z.array(z.string().min(1)).min(1)\<close> and \<open>z.object({ models: ... })\<close>: \<open>safeParse\<close> gives the
  data on success (\<open>Some\<close>) and no data on failure (\<open>None\<close>).
\<close>

definition modelString :: "'n json \<Rightarrow> jsstring option" where
  "modelString v = (case v of JStr s \<Rightarrow> if 1 \<le> length s then Some s else None | _ \<Rightarrow> None)"

definition ModelsArraySchema :: "'n json \<Rightarrow> jsstring list option" where
  "ModelsArraySchema v =
     (case v of
        JArr xs \<Rightarrow>
          (case those (map modelString xs) of
             Some ms \<Rightarrow> if 1 \<le> length ms then Some ms else None
           | None \<Rightarrow> None)
      | _ \<Rightarrow> None)"

definition ModelsConfigSchema :: "'n json \<Rightarrow> jsstring list option" where
  "ModelsConfigSchema v =
     (case v of
        JObj props \<Rightarrow>
          (case map_of props (js ''models'') of
             Some ms \<Rightarrow> ModelsArraySchema ms
           | None \<Rightarrow> None)
      | _ \<Rightarrow> None)"

text \<open>
  \<open>normalizeModels\<close>: the loop over \<open>models\<close> with its set \<open>seen\<close> and its list \<open>normalized\<close>.
  \<open>toLowerCase\<close> is the library's \<open>String.prototype.toLowerCase\<close>; \<open>primaryModel\<close> is \<open>None\<close>
  when the option is \<open>undefined\<close>, which no string equals.
\<close>

fun normalizeLoop ::
  "(jsstring \<Rightarrow> jsstring) \<Rightarrow> jsstring option \<Rightarrow> jsstring list \<Rightarrow> jsstring set \<Rightarrow> jsstring list
   \<Rightarrow> jsstring list" where
  "normalizeLoop toLowerCase primaryModel [] seen normalized = normalized"
| "normalizeLoop toLowerCase primaryModel (model # rest) seen normalized =
     (let trimmed = trim model in
      if trimmed = [] \<or> Some trimmed = primaryModel
      then normalizeLoop toLowerCase primaryModel rest seen normalized
      else
        (let key = toLowerCase trimmed in
         if key \<in> seen then normalizeLoop toLowerCase primaryModel rest seen normalized
         else normalizeLoop toLowerCase primaryModel rest (insert key seen)
                (normalized @ [trimmed])))"

definition normalizeModels ::
  "(jsstring \<Rightarrow> jsstring) \<Rightarrow> jsstring list \<Rightarrow> jsstring option \<Rightarrow> jsstring list" where
  "normalizeModels toLowerCase models primaryModel =
     normalizeLoop toLowerCase primaryModel models {} []"

datatype model_source = SourceFile | SourceDefault

record fallback_result =
  res_models :: "jsstring list"
  res_source :: model_source

record fallback_options =
  opt_filePath :: "jsstring option"
  opt_primaryModel :: "jsstring option"

datatype load_error = ReadFailed | InvalidJson | InvalidConfig

text \<open>
  The environment of \<open>loadFallbackModels\<close>: \<open>env_readFile\<close> is \<open>fs.readFile(path, "utf-8")\<close>
  (\<open>None\<close> when it rejects), \<open>env_parse\<close> is \<open>JSON.parse\<close> (\<open>None\<close> when it throws),
  \<open>env_toLowerCase\<close> is \<open>String.prototype.toLowerCase\<close> and \<open>env_defaultPath\<close> is
  \<open>path.join(process.cwd(), "config", "fallback-models.json")\<close>. \<open>loadFromFile\<close> is the body
  of the \<open>try\<close> block, \<open>loadFallbackModels\<close> the whole function with its \<open>catch\<close>.
\<close>

record 'n load_env =
  env_readFile :: "jsstring \<Rightarrow> jsstring option"
  env_parse :: "jsstring \<Rightarrow> 'n json option"
  env_toLowerCase :: "jsstring \<Rightarrow> jsstring"
  env_defaultPath :: jsstring

definition loadFromFile :: "'n load_env \<Rightarrow> fallback_options \<Rightarrow> load_error + fallback_result" where
  "loadFromFile env options =
     (let path = (case opt_filePath options of Some p \<Rightarrow> p | None \<Rightarrow> env_defaultPath env) in
      case env_readFile env path of
        None \<Rightarrow> Inl ReadFailed
      | Some raw \<Rightarrow>
          (case env_parse env raw of
             None \<Rightarrow> Inl InvalidJson
           | Some parsed \<Rightarrow>
               (case (case ModelsArraySchema parsed of
                        Some ms \<Rightarrow> Some ms
                      | None \<Rightarrow> ModelsConfigSchema parsed) of
                  None \<Rightarrow> Inl InvalidConfig
                | Some ms \<Rightarrow>
                    Inr \<lparr>res_models = normalizeModels (env_toLowerCase env) ms (opt_primaryModel options),
                         res_source = SourceFile\<rparr>)))"

definition loadFallbackModels :: "'n load_env \<Rightarrow> fallback_options \<Rightarrow> fallback_result" where
  "loadFallbackModels env options =
     (case loadFromFile env options of
        Inr r \<Rightarrow> r
      | Inl _ \<Rightarrow>
          \<lparr>res_models = normalizeModels (env_toLowerCase env) DEFAULT_FALLBACK_MODELS (opt_primaryModel options),
           res_source = SourceDefault\<rparr>)"



section \<open>The completion client (core/LlmClient.ts)\<close>

text \<open>
  JavaScript numbers that measure time are modelled as reals (no NaN, no infinity, no
  rounding); counters are natural numbers.
\<close>

datatype role = System | User | Assistant

record message =
  msg_role :: role
  msg_content :: jsstring

record request =
  req_model :: jsstring
  req_messages :: "message list"
  req_temperature :: "real option"
  req_max_tokens :: "nat option"

text \<open>
  A message of a response: \<open>content\<close> can be \<open>null\<close> on the wire and \<open>reasoning\<close> is optional.
  A response is the list of the messages of its \<open>choices\<close>.
\<close>

record reply =
  rep_content :: "jsstring option"
  rep_reasoning :: "jsstring option"

type_synonym response = "reply list"

text \<open>
  What \<open>client.post\<close> throws. For an Axios error: \<open>error.response?.status\<close>, \<open>error.code\<close>,
  \<open>error.message\<close>, the numeric value of the \<open>retry-after\<close> header (\<open>None\<close> when
  \<open>Number(...)\<close> is not finite: header absent, a date, not a number) and
  \<open>JSON.stringify(error.response?.data)\<close> (\<open>None\<close> when \<open>undefined\<close>). For any other thrown value:
  its message, or \<open>String(error)\<close>.
\<close>

datatype http_error =
    AxiosError "nat option" "jsstring option" jsstring "real option" "jsstring option"
  | OtherError jsstring

fun statusOf :: "http_error \<Rightarrow> nat option" where
  "statusOf (AxiosError status code msg retryAfter data) = status"
| "statusOf (OtherError msg) = None"

fun messageOf :: "http_error \<Rightarrow> jsstring" where
  "messageOf (AxiosError status code msg retryAfter data) = msg"
| "messageOf (OtherError msg) = msg"

fun responseDataOf :: "http_error \<Rightarrow> jsstring" where
  "responseDataOf (AxiosError status code msg retryAfter data) =
     (case data of Some d \<Rightarrow> d | None \<Rightarrow> [])"
| "responseDataOf (OtherError msg) = []"

fun isTimeout :: "http_error \<Rightarrow> bool" where
  "isTimeout (AxiosError status code msg retryAfter data) =
     (code = Some (js ''ECONNABORTED'') \<or> includesStr msg (js ''timeout''))"
| "isTimeout (OtherError msg) = False"

definition shouldRetry :: "http_error \<Rightarrow> bool" where
  "shouldRetry error =
     (isTimeout error \<or> statusOf error = Some 429 \<or> statusOf error = Some 500 \<or>
      statusOf error = Some 503)"

fun retryAfterMs :: "http_error \<Rightarrow> real" where
  "retryAfterMs (AxiosError status code msg retryAfter data) =
     (case retryAfter of Some s \<Rightarrow> s * 1000 | None \<Rightarrow> 0)"
| "retryAfterMs (OtherError msg) = 0"

text \<open>The decimal digits of a number, as a template literal prints it.\<close>

fun showNat :: "nat \<Rightarrow> jsstring" where
  "showNat n = (if n < 10 then [48 + n] else showNat (n div 10) @ [48 + n mod 10])"

definition statusInfo :: "http_error \<Rightarrow> jsstring" where
  "statusInfo error =
     (case statusOf error of
        Some status \<Rightarrow> if status \<noteq> 0 then js '' (status '' @ showNat status @ js '')'' else []
      | None \<Rightarrow> [])"

definition details :: "http_error \<Rightarrow> jsstring" where
  "details error =
     (if responseDataOf error \<noteq> [] then js '' - '' @ responseDataOf error else [])"

definition failureMessage :: "http_error \<Rightarrow> jsstring" where
  "failureMessage error =
     js ''LLM request failed'' @ statusInfo error @ js '': '' @ messageOf error @ details error"

text \<open>
  Everything the client does to the outside is recorded in order: a call of
  \<open>createChatCompletion\<close> (\<open>Request\<close>), each \<open>client.post\<close> (\<open>Post\<close>), each \<open>sleep\<close> of the
  client (\<open>Sleep\<close>), each \<open>reportProgress\<close> (\<open>Tick\<close>) and each delay of a caller between its own
  attempts (\<open>Wait\<close>). The backend answers the \<open>n\<close>-th post of the run; \<open>posts\<close> counts the posts
  made so far.
\<close>

datatype event = Request request | Post request | Sleep real | Tick nat | Wait real

record world =
  posts :: nat
  trace :: "event list"

record client =
  cl_maxRetries :: real
  cl_initialBackoffMs :: real
  cl_post :: "nat \<Rightarrow> request \<Rightarrow> http_error + response"

record client_options =
  o_maxRetries :: "real option"
  o_initialBackoffMs :: "real option"

definition LlmClient :: "client_options \<Rightarrow> (nat \<Rightarrow> request \<Rightarrow> http_error + response) \<Rightarrow> client" where
  "LlmClient options post =
     \<lparr>cl_maxRetries = (case o_maxRetries options of Some m \<Rightarrow> m | None \<Rightarrow> 6),
      cl_initialBackoffMs = (case o_initialBackoffMs options of Some b \<Rightarrow> b | None \<Rightarrow> 2000),
      cl_post = post\<rparr>"

definition emit :: "event \<Rightarrow> world \<Rightarrow> world" where
  "emit e w = w\<lparr>trace := trace w @ [e]\<rparr>"

definition doPost :: "request \<Rightarrow> world \<Rightarrow> world" where
  "doPost payload w = w\<lparr>posts := posts w + 1, trace := trace w @ [Post payload]\<rparr>"

text \<open>
  The \<open>while (true)\<close> loop of \<open>createChatCompletion\<close> with its variables \<open>attempt\<close> and
  \<open>backoff\<close>. A thrown \<open>Error\<close> is the left summand, carrying its message.
\<close>

function createLoop ::
  "client \<Rightarrow> request \<Rightarrow> nat \<Rightarrow> real \<Rightarrow> world \<Rightarrow> (jsstring + response) \<times> world" where
  "createLoop cl payload attempt backoff w =
     (case cl_post cl (posts w) payload of
        Inr response \<Rightarrow> (Inr response, emit (Tick 1) (doPost payload w))
      | Inl error \<Rightarrow>
          if \<not> shouldRetry error \<or> cl_maxRetries cl \<le> real attempt
          then (Inl (failureMessage error), doPost payload w)
          else createLoop cl payload (attempt + 1) (backoff * 2)
                 (emit (Sleep (max backoff (retryAfterMs error))) (doPost payload w)))"
  by pat_completeness auto
termination
proof (relation "measure (\<lambda>(cl, payload, attempt, backoff, w). nat \<lceil>cl_maxRetries cl\<rceil> - attempt)")
  show "wf (measure (\<lambda>(cl, payload, attempt, backoff, w). nat \<lceil>cl_maxRetries cl\<rceil> - attempt))"
    by simp
next
  fix cl :: client and payload :: request and attempt :: nat and backoff :: real
    and w :: world and x1 :: http_error
  assume "\<not> (\<not> shouldRetry x1 \<or> cl_maxRetries cl \<le> real attempt)"
  then have "real attempt < cl_maxRetries cl" by simp
  then have "attempt < nat \<lceil>cl_maxRetries cl\<rceil>" by linarith
  then show "((cl, payload, attempt + 1, backoff * 2,
                emit (Sleep (max backoff (retryAfterMs x1))) (doPost payload w)),
               (cl, payload, attempt, backoff, w))
             \<in> measure (\<lambda>(cl, payload, attempt, backoff, w). nat \<lceil>cl_maxRetries cl\<rceil> - attempt)"
    by simp
qed

definition createChatCompletion ::
  "client \<Rightarrow> request \<Rightarrow> world \<Rightarrow> (jsstring + response) \<times> world" where
  "createChatCompletion cl payload w =
     createLoop cl payload 0 (cl_initialBackoffMs cl) (emit (Request payload) w)"

declare createLoop.simps [simp del]

section \<open>Reading a completion (utils/llm.ts)\<close>

text \<open>\<open>response.choices[0]?.message ?? null\<close>.\<close>

definition firstMessage :: "response \<Rightarrow> reply option" where
  "firstMessage response = (case response of [] \<Rightarrow> None | m # _ \<Rightarrow> Some m)"

definition extractMessageText :: "reply option \<Rightarrow> jsstring" where
  "extractMessageText message =
     (case message of
        None \<Rightarrow> []
      | Some m \<Rightarrow>
          (case map_option trim (rep_content m) of
             Some (c # cs) \<Rightarrow> c # cs
           | _ \<Rightarrow> (case rep_reasoning m of Some r \<Rightarrow> trim r | None \<Rightarrow> [])))"

section \<open>The interview session (stages/2-simulate.ts)\<close>

text \<open>
  The sanitizer removes every match of \<open><\/?s>|\[\/?OUT]|\[\/?B_INST]\<close> (flags \<open>gi\<close>) and trims.
  At most one tag matches at a position; \<open>removeTags k\<close> skips the \<open>k\<close> remaining characters
  of the match in progress, and scanning resumes after the match.
\<close>

definition tags :: "jsstring list" where
  "tags = [js ''</s>'', js ''<s>'', js ''[/out]'', js ''[out]'', js ''[/b_inst]'', js ''[b_inst]'']"

definition tagAt :: "jsstring \<Rightarrow> jsstring option" where
  "tagAt s = find (\<lambda>t. map lowerAscii (take (length t) s) = t) tags"

fun removeTags :: "nat \<Rightarrow> jsstring \<Rightarrow> jsstring" where
  "removeTags k [] = []"
| "removeTags k (c # cs) =
     (if 0 < k then removeTags (k - 1) cs
      else (case tagAt (c # cs) of
              Some t \<Rightarrow> removeTags (length t - 1) cs
            | None \<Rightarrow> c # removeTags 0 cs))"

definition sanitizeContent :: "jsstring \<Rightarrow> jsstring" where
  "sanitizeContent content = trim (removeTags 0 content)"

text \<open>The parameters of \<open>requestContent\<close>; an absent optional parameter is \<open>None\<close>.\<close>

record content_params =
  cp_label :: jsstring
  cp_model :: jsstring
  cp_messages :: "message list"
  cp_maxTokens :: "nat option"
  cp_retryPrompt :: "jsstring option"
  cp_maxAttempts :: "nat option"

definition attemptMessages :: "content_params \<Rightarrow> nat \<Rightarrow> message list" where
  "attemptMessages params attempt =
     (case cp_retryPrompt params of
        Some (c # cs) \<Rightarrow>
          if attempt = 0 then cp_messages params
          else cp_messages params @ [\<lparr>msg_role = User, msg_content = c # cs\<rparr>]
      | _ \<Rightarrow> cp_messages params)"

definition attemptPayload :: "content_params \<Rightarrow> nat \<Rightarrow> request" where
  "attemptPayload params attempt =
     \<lparr>req_model = cp_model params, req_messages = attemptMessages params attempt,
      req_temperature = None, req_max_tokens = cp_maxTokens params\<rparr>"

definition cleanedText :: "response \<Rightarrow> jsstring" where
  "cleanedText response =
     (let content = extractMessageText (firstMessage response)
      in if content \<noteq> [] then sanitizeContent content else [])"

text \<open>
  The \<open>while (attempt < maxAttempts)\<close> loop of \<open>requestContent\<close>. Its \<open>setTimeout\<close> delay is the
  event \<open>Wait\<close>; a throw of \<open>createChatCompletion\<close> leaves the loop as it is; the calls of the
  logger are left out.
\<close>

function requestLoop ::
  "client \<Rightarrow> content_params \<Rightarrow> nat \<Rightarrow> nat \<Rightarrow> world \<Rightarrow> (jsstring + jsstring) \<times> world" where
  "requestLoop cl params maxAttempts attempt w =
     (if attempt < maxAttempts then
        (case createChatCompletion cl (attemptPayload params attempt) w of
           (Inl err, w1) \<Rightarrow> (Inl err, w1)
         | (Inr response, w1) \<Rightarrow>
             if cleanedText response \<noteq> [] then (Inr (cleanedText response), w1)
             else requestLoop cl params maxAttempts (attempt + 1)
                    (if attempt + 1 < maxAttempts
                     then emit (Wait (1000 * real (attempt + 1))) w1 else w1))
      else (Inl (cp_label params @ js '' response missing.''), w))"
  by pat_completeness auto
termination
  by (relation "measure (\<lambda>(cl, params, maxAttempts, attempt, w). maxAttempts - attempt)") auto

declare requestLoop.simps [simp del]

definition requestContent ::
  "client \<Rightarrow> content_params \<Rightarrow> world \<Rightarrow> (jsstring + jsstring) \<times> world" where
  "requestContent cl params w =
     requestLoop cl params (case cp_maxAttempts params of Some n \<Rightarrow> n | None \<Rightarrow> 3) 0 w"

record persona =
  pe_id :: jsstring
  pe_segmentId :: jsstring
  pe_name :: jsstring
  pe_age :: nat
  pe_occupation :: jsstring
  pe_bio :: jsstring
  pe_hiddenTraits :: "jsstring list"

datatype interviewer_mode = ScriptMode | LlmMode

text \<open>The fields of the class \<open>InterviewSession\<close> (the logger apart).\<close>

record interview_session =
  is_client :: client
  is_respondentModel :: jsstring
  is_interviewerModel :: jsstring
  is_interviewScript :: "jsstring list"
  is_respondentContext :: jsstring
  is_respondentPrompt :: jsstring
  is_interviewerPrompt :: jsstring
  is_interviewerMode :: interviewer_mode
  is_persona :: persona
  is_segmentNotes :: "jsstring list"
  is_language :: jsstring

text \<open>\<open>IInterviewSession\<close>, the record a finished interview returns and the scheduler persists.\<close>

record session =
  s_id :: jsstring
  s_projectName :: jsstring
  s_personaId :: jsstring
  s_segmentId :: jsstring
  s_startedAt :: jsstring
  s_endedAt :: jsstring
  s_messages :: "message list"

fun join :: "jsstring \<Rightarrow> jsstring list \<Rightarrow> jsstring" where
  "join sep [] = []"
| "join sep [x] = x"
| "join sep (x # y # ys) = x @ sep @ join sep (y # ys)"

definition buildRespondentSystem :: "interview_session \<Rightarrow> jsstring" where
  "buildRespondentSystem this =
     join [NEWLINE]
       ([trim (is_respondentPrompt this),
         [],
         trim (is_respondentContext this),
         [],
         js ''Language: '' @ is_language this,
         js ''Respond only in this language.'',
         js ''Persona: '' @ pe_name (is_persona this),
         js ''Bio: '' @ pe_bio (is_persona this),
         js ''Hidden traits: '' @ join (js '', '') (pe_hiddenTraits (is_persona this))] @
        (if 0 < length (is_segmentNotes this)
         then js ''Segment hints:'' # is_segmentNotes this else []))"

definition buildInterviewerSystem :: "interview_session \<Rightarrow> jsstring" where
  "buildInterviewerSystem this =
     join [NEWLINE]
       ([trim (is_interviewerPrompt this),
         [],
         js ''Language: '' @ is_language this,
         js ''Ask the next question in this language only.'',
         js ''Script steps:''] @
        map (\<lambda>(index, step). showNat (index + 1) @ js ''. '' @ step)
          (enumerate 0 (is_interviewScript this)))"

text \<open>
  The two Russian literals of \<open>run\<close>, as UTF-16 code units: the prefix of the message that
  announces the next script line to the interviewer model, and the interviewer's retry
  prompt.
\<close>

definition nextScriptLinePrefix :: jsstring where
  "nextScriptLinePrefix =
     [1057, 1083, 1077, 1076, 1091, 1102, 1097, 1080, 1081, 32, 1074, 1086, 1087, 1088, 1086,
      1089, 32, 1080, 1079, 32, 1089, 1082, 1088, 1080, 1087, 1090, 1072, 58, 32]"

definition interviewerRetryPrompt :: jsstring where
  "interviewerRetryPrompt =
     [1047, 1072, 1076, 1072, 1081, 32, 1089, 1083, 1077, 1076, 1091, 1102, 1097, 1080, 1081,
      32, 1074, 1086, 1087, 1088, 1086, 1089, 32, 1086, 1076, 1085, 1080, 1084, 32, 1087, 1088,
      1077, 1076, 1083, 1086, 1078, 1077, 1085, 1080, 1077, 1084, 46, 32, 1041, 1077, 1079, 32,
      1082, 1086, 1084, 1084, 1077, 1085, 1090, 1072, 1088, 1080, 1077, 1074, 46]"

definition interviewerParams ::
  "interview_session \<Rightarrow> jsstring \<Rightarrow> message list \<Rightarrow> jsstring \<Rightarrow> content_params" where
  "interviewerParams this interviewerSystem messages step =
     \<lparr>cp_label = js ''interviewer'',
      cp_model = is_interviewerModel this,
      cp_messages =
        \<lparr>msg_role = System, msg_content = interviewerSystem\<rparr> # messages @
        [\<lparr>msg_role = User, msg_content = nextScriptLinePrefix @ step\<rparr>],
      cp_maxTokens = Some 120,
      cp_retryPrompt = Some interviewerRetryPrompt,
      cp_maxAttempts = None\<rparr>"

definition respondentParams ::
  "interview_session \<Rightarrow> jsstring \<Rightarrow> message list \<Rightarrow> content_params" where
  "respondentParams this respondentSystem messages =
     \<lparr>cp_label = js ''respondent'',
      cp_model = is_respondentModel this,
      cp_messages = \<lparr>msg_role = System, msg_content = respondentSystem\<rparr> # messages,
      cp_maxTokens = Some 160,
      cp_retryPrompt = Some (js ''Please answer directly in 1-3 sentences.''),
      cp_maxAttempts = Some 5\<rparr>"

text \<open>
  The interviewer's turn of one step: the script line, or in \<open>llm\<close> mode the model's text,
  with the \<open>catch\<close> that puts the script line back.
\<close>

definition interviewerTurn ::
  "interview_session \<Rightarrow> jsstring \<Rightarrow> message list \<Rightarrow> jsstring \<Rightarrow> world \<Rightarrow> jsstring \<times> world" where
  "interviewerTurn this interviewerSystem messages step w =
     (if is_interviewerMode this = LlmMode then
        (case requestContent (is_client this)
                (interviewerParams this interviewerSystem messages step) w of
           (Inr interviewerContent, w1) \<Rightarrow> (interviewerContent, w1)
         | (Inl err, w1) \<Rightarrow> (step, w1))
      else (step, w))"

text \<open>The \<open>for\<close> loop of \<open>run\<close> over the script, with the list \<open>messages\<close> it extends.\<close>

fun runSteps ::
  "interview_session \<Rightarrow> jsstring \<Rightarrow> jsstring \<Rightarrow> jsstring list \<Rightarrow> message list \<Rightarrow> world
   \<Rightarrow> (jsstring + message list) \<times> world" where
  "runSteps this respondentSystem interviewerSystem [] messages w = (Inr messages, w)"
| "runSteps this respondentSystem interviewerSystem (step # rest) messages w =
     (case interviewerTurn this interviewerSystem messages step w of
        (interviewerContent, w1) \<Rightarrow>
          (case requestContent (is_client this)
                  (respondentParams this respondentSystem
                     (messages @ [\<lparr>msg_role = User, msg_content = interviewerContent\<rparr>])) w1 of
             (Inl err, w2) \<Rightarrow> (Inl err, w2)
           | (Inr respondentContent, w2) \<Rightarrow>
               runSteps this respondentSystem interviewerSystem rest
                 (messages @ [\<lparr>msg_role = User, msg_content = interviewerContent\<rparr>,
                              \<lparr>msg_role = Assistant, msg_content = respondentContent\<rparr>]) w2))"

text \<open>
  \<open>run\<close>. The clock (\<open>new Date().toISOString()\<close>) is read at the start and at the end; what it
  shows is a function of what has happened so far.
\<close>

definition sessionId :: "persona \<Rightarrow> jsstring \<Rightarrow> jsstring" where
  "sessionId p startedAt =
     map (\<lambda>c. if c = 58 \<or> c = 46 then 45 else c) (pe_id p @ js ''-'' @ startedAt)"

definition run ::
  "interview_session \<Rightarrow> (world \<Rightarrow> jsstring) \<Rightarrow> world \<Rightarrow> (jsstring + session) \<times> world" where
  "run this clock w =
     (let startedAt = clock w in
      case runSteps this (buildRespondentSystem this) (buildInterviewerSystem this)
             (is_interviewScript this) [] w of
        (Inl err, w1) \<Rightarrow> (Inl err, w1)
      | (Inr messages, w1) \<Rightarrow>
          (Inr \<lparr>s_id = sessionId (is_persona this) startedAt,
                s_projectName = [],
                s_personaId = pe_id (is_persona this),
                s_segmentId = pe_segmentId (is_persona this),
                s_startedAt = startedAt,
                s_endedAt = clock w1,
                s_messages = messages\<rparr>, w1))"

section \<open>The project configuration (types/config.ts)\<close>

record segment =
  seg_id :: jsstring
  seg_name :: jsstring
  seg_weight :: real
  seg_traits :: "jsstring list"
  seg_tooling :: "jsstring list option"
  seg_painPoints :: "jsstring list option"
  seg_cadence :: "jsstring option"

record metric =
  m_key :: jsstring
  m_description :: jsstring

record config =
  cfg_projectName :: jsstring
  cfg_description :: jsstring
  cfg_iterations :: nat
  cfg_concurrency :: nat
  cfg_lang :: jsstring
  cfg_generator :: jsstring
  cfg_interviewer :: jsstring
  cfg_respondent :: jsstring
  cfg_analyzer :: jsstring
  cfg_advisor :: "jsstring option"
  cfg_segments :: "segment list"
  cfg_context :: jsstring
  cfg_script :: "jsstring list"
  cfg_interviewerMode :: "interviewer_mode option"
  cfg_analyticsSchema :: "metric list"

section \<open>The batch scheduler (stages/2-simulate.ts)\<close>

text \<open>
  The log directory as \<open>loadCompletedPersonaIds\<close> sees it: \<open>None\<close> when \<open>readdir\<close> rejects,
  else the file names, each with the outcome of reading the file and \<open>JSON.parse\<close> of its
  text (\<open>None\<close> when either throws).
\<close>

type_synonym 'n logdir = "(jsstring \<times> 'n json option) list option"




text \<open>
  What \<open>writeSession\<close> leaves in the log directory for a session: the file \<open>id.json\<close>, whose
  text parses to the object of the session's fields.
\<close>

definition roleName :: "role \<Rightarrow> jsstring" where
  "roleName r = (case r of System \<Rightarrow> js ''system'' | User \<Rightarrow> js ''user'' | Assistant \<Rightarrow> js ''assistant'')"

definition messageJson :: "message \<Rightarrow> 'n json" where
  "messageJson m =
     JObj [(js ''role'', JStr (roleName (msg_role m))), (js ''content'', JStr (msg_content m))]"

definition sessionJson :: "session \<Rightarrow> 'n json" where
  "sessionJson s =
     JObj [(js ''id'', JStr (s_id s)),
           (js ''projectName'', JStr (s_projectName s)),
           (js ''personaId'', JStr (s_personaId s)),
           (js ''segmentId'', JStr (s_segmentId s)),
           (js ''startedAt'', JStr (s_startedAt s)),
           (js ''endedAt'', JStr (s_endedAt s)),
           (js ''messages'', JArr (map messageJson (s_messages s)))]"

definition persistedFile :: "session \<Rightarrow> jsstring \<times> 'n json option" where
  "persistedFile s = (s_id s @ js ''.json'', Some (sessionJson s))"

text \<open>
  The environment of \<open>simulateInterviews\<close>: the two prompt templates and \<open>personas.json\<close> as
  read (\<open>None\<close> when reading or parsing throws), the log directory, the client and the clock.
\<close>

record 'n sim_env =
  se_respondentPrompt :: "jsstring option"
  se_interviewerPrompt :: "jsstring option"
  se_personas :: "persona list option"
  se_logs :: "'n logdir"
  se_client :: client
  se_clock :: "world \<Rightarrow> jsstring"











section \<open>The analysis cascade (stages/3-analyze.ts)\<close>

text \<open>
  What the analysis takes from its runtime: \<open>JSON.parse\<close> (\<open>None\<close> when it throws),
  \<open>String(n)\<close> for a number, the canonical form of a code unit under flag \<open>i\<close> of a regular
  expression, and \<open>JSON.stringify(template, null, 2)\<close> for the template object.
\<close>

record 'n analysis_env =
  an_parse :: "jsstring \<Rightarrow> 'n json option"
  an_numStr :: "'n \<Rightarrow> jsstring"
  an_canon :: "jschar \<Rightarrow> jschar"
  an_stringify :: "(jsstring \<times> jsstring) list \<Rightarrow> jsstring"

text \<open>
  A \<open>Record<string, string>\<close> is the list of its own properties in insertion order;
  \<open>row[key] = value\<close> is \<open>AList.update\<close>. (Keys that name members of \<open>Object.prototype\<close> are
  outside this model of an object.)
\<close>

type_synonym row = "(jsstring \<times> jsstring) list"

definition buildJsonTemplate :: "'n analysis_env \<Rightarrow> config \<Rightarrow> jsstring" where
  "buildJsonTemplate env cfg =
     an_stringify env
       (fold (\<lambda>metric template. AList.update (m_key metric) [] template)
          (cfg_analyticsSchema cfg) [])"

definition roleUpper :: "role \<Rightarrow> jsstring" where
  "roleUpper r = (case r of System \<Rightarrow> js ''SYSTEM'' | User \<Rightarrow> js ''USER'' | Assistant \<Rightarrow> js ''ASSISTANT'')"

definition buildAnalyticsPrompt :: "'n analysis_env \<Rightarrow> config \<Rightarrow> session \<Rightarrow> jsstring" where
  "buildAnalyticsPrompt env cfg s =
     (let fields = join [NEWLINE]
            (map (\<lambda>metric. js ''- '' @ m_key metric @ js '': '' @ m_description metric)
               (cfg_analyticsSchema cfg));
          transcript = join [NEWLINE]
            (map (\<lambda>m. roleUpper (msg_role m) @ js '': '' @ msg_content m) (s_messages s))
      in join [NEWLINE]
           [js ''You are an analyst. Extract the following fields into a JSON object.'',
            js ''Return ONLY valid JSON with string values for each key.'',
            js ''If a field is unknown, return an empty string.'',
            js ''Keep values concise (2-8 words). Use comma-separated lists for multiple items.'',
            js ''Do not include markdown, tags, code fences, or extra commentary.'',
            js ''All values must be written in the language: '' @ cfg_lang cfg @ js ''.'',
            js ''Keys must match the template exactly.'',
            js ''If JSON is not possible, output plain text with one line per field in the form:'',
            js ''key: value'',
            js ''Use this exact JSON template and fill in values:'',
            buildJsonTemplate env cfg,
            [],
            js ''Fields:'',
            fields,
            [],
            js ''Transcript:'',
            transcript])"

definition normalizeRow :: "row \<Rightarrow> config \<Rightarrow> row" where
  "normalizeRow parsed cfg =
     fold (\<lambda>metric row.
             AList.update (m_key metric)
               (case map_of parsed (m_key metric) of Some v \<Rightarrow> v | None \<Rightarrow> []) row)
       (cfg_analyticsSchema cfg) []"

text \<open>
  \<open>AnalysisRowSchema\<close>: an object whose values are strings, numbers or booleans, each turned
  into a string; anything else fails.
\<close>

definition AnalysisValueSchema :: "('n \<Rightarrow> jsstring) \<Rightarrow> 'n json \<Rightarrow> jsstring option" where
  "AnalysisValueSchema numStr v =
     (case v of
        JStr s \<Rightarrow> Some s
      | JNum n \<Rightarrow> Some (numStr n)
      | JBool b \<Rightarrow> Some (if b then js ''true'' else js ''false'')
      | _ \<Rightarrow> None)"

definition AnalysisRowSchema :: "('n \<Rightarrow> jsstring) \<Rightarrow> 'n json \<Rightarrow> row option" where
  "AnalysisRowSchema numStr v =
     (case v of
        JObj props \<Rightarrow>
          those (map (\<lambda>(k, x). map_option (Pair k) (AnalysisValueSchema numStr x)) props)
      | _ \<Rightarrow> None)"

text \<open>\<open>parseJsonFromText\<close> (utils/json.ts); \<open>None\<close> is a throw.\<close>

definition parseJsonFromText :: "(jsstring \<Rightarrow> 'n json option) \<Rightarrow> jsstring \<Rightarrow> 'n json option" where
  "parseJsonFromText parse content =
     (case parse content of
        Some v \<Rightarrow> Some v
      | None \<Rightarrow>
          (case extractJsonBlock content of
             None \<Rightarrow> None
           | Some extracted \<Rightarrow> if extracted = [] then None else parse extracted))"

datatype parse_error = ParseFailed | InvalidPayload

definition parseAnalysisRow :: "'n analysis_env \<Rightarrow> jsstring \<Rightarrow> config \<Rightarrow> parse_error + row" where
  "parseAnalysisRow env content cfg =
     (let sanitized = sanitizeContent content in
      case parseJsonFromText (an_parse env) sanitized of
        None \<Rightarrow> Inl ParseFailed
      | Some parsed \<Rightarrow>
          (case AnalysisRowSchema (an_numStr env) parsed of
             None \<Rightarrow> Inl InvalidPayload
           | Some data \<Rightarrow> Inr (normalizeRow data cfg)))"

text \<open>
  The loose pattern: the key, \<open>\s*\<close>, one of hyphen-minus, em dash (U+2014), colon and
  equals sign, \<open>\s*\<close>, and the group \<open>(.+)\<close>, under flag \<open>i\<close>. The key is put into the pattern
  as it is; the model reads it as literal text, which it is when it holds no character
  special in a regular expression. \<open>dotPlus\<close> is the group after the separator: \<open>\s*\<close> takes
  the white space and the group runs to the end of the line; when only white space is
  left, \<open>\s*\<close> gives back characters until the group can take one that ends no line.
\<close>

definition isSeparator :: "jschar \<Rightarrow> bool" where
  "isSeparator c = (c = 45 \<or> c = 8212 \<or> c = 58 \<or> c = 61)"

definition dotPlus :: "jsstring \<Rightarrow> jsstring option" where
  "dotPlus r =
     (case dropWhile isSpace r of
        c # cs \<Rightarrow> Some (takeWhile (\<lambda>x. \<not> isLineTerminator x) (c # cs))
      | [] \<Rightarrow>
          (case rev (filter (\<lambda>x. \<not> isLineTerminator x) r) of
             [] \<Rightarrow> None
           | c # _ \<Rightarrow> Some [c]))"

definition looseMatchAt :: "(jschar \<Rightarrow> jschar) \<Rightarrow> jsstring \<Rightarrow> jsstring \<Rightarrow> jsstring option" where
  "looseMatchAt canon key s =
     (if length key \<le> length s \<and> map canon (take (length key) s) = map canon key then
        (case dropWhile isSpace (drop (length key) s) of
           sep # rest \<Rightarrow> if isSeparator sep then dotPlus rest else None
         | [] \<Rightarrow> None)
      else None)"

fun looseSearch :: "(jschar \<Rightarrow> jschar) \<Rightarrow> jsstring \<Rightarrow> jsstring \<Rightarrow> jsstring option" where
  "looseSearch canon key [] = looseMatchAt canon key []"
| "looseSearch canon key (c # cs) =
     (case looseMatchAt canon key (c # cs) of
        Some captured \<Rightarrow> Some captured
      | None \<Rightarrow> looseSearch canon key cs)"

definition parseLooseAnalysisRow :: "'n analysis_env \<Rightarrow> jsstring \<Rightarrow> config \<Rightarrow> row" where
  "parseLooseAnalysisRow env content cfg =
     (let sanitized = sanitizeContent content in
      fold (\<lambda>metric row.
              AList.update (m_key metric)
                (case looseSearch (an_canon env) (m_key metric) sanitized of
                   Some captured \<Rightarrow> trim captured
                 | None \<Rightarrow> []) row)
        (cfg_analyticsSchema cfg) [])"

definition hasAnyValue :: "row \<Rightarrow> bool" where
  "hasAnyValue row = list_ex (\<lambda>v. 0 < length (trim v)) (map snd row)"

text \<open>
  \<open>sanitizeValue\<close>. \<open>collapseSpaces\<close> is \<open>replace(/\s+/g, " ")\<close>; \<open>stripPrefix\<close> is one
  \<open>replace(/^literal[^:]*:\s*/i, "")\<close>; \<open>splitOn\<close> is \<open>split\<close> with a non-empty separator;
  \<open>quoteSearch\<close> is the group of \<open>/"([^"]{3,160})"/\<close> or of its variant with guillemets.
\<close>

fun collapseSpaces :: "bool \<Rightarrow> jsstring \<Rightarrow> jsstring" where
  "collapseSpaces inRun [] = []"
| "collapseSpaces inRun (c # cs) =
     (if isSpace c then (if inRun then collapseSpaces True cs else 32 # collapseSpaces True cs)
      else c # collapseSpaces False cs)"

definition stripPrefix :: "(jschar \<Rightarrow> jschar) \<Rightarrow> jsstring \<Rightarrow> jsstring \<Rightarrow> jsstring" where
  "stripPrefix canon literal s =
     (if length literal \<le> length s \<and> map canon (take (length literal) s) = map canon literal then
        (case dropWhile (\<lambda>c. c \<noteq> 58) (drop (length literal) s) of
           [] \<Rightarrow> s
         | colon # rest \<Rightarrow> dropWhile isSpace rest)
      else s)"

definition prefixLiterals :: "jsstring list" where
  "prefixLiterals =
     [[1055, 1086, 1083, 1100, 1079, 1086, 1074, 1072, 1090, 1077, 1083, 1100],
      [1048, 1079, 32, 1086, 1090, 1074, 1077, 1090, 1086, 1074],
      [1042, 32, 1076, 1080, 1072, 1083, 1086, 1075, 1077],
      [1050, 1088, 1080, 1090, 1080, 1095, 1085, 1099, 1077, 32, 1092, 1091, 1085, 1082, 1094,
       1080, 1080],
      [1054, 1089, 1085, 1086, 1074, 1085, 1099, 1077, 32, 1088, 1080, 1089, 1082, 1080]]"

fun splitLoop :: "jsstring \<Rightarrow> nat \<Rightarrow> jsstring \<Rightarrow> jsstring \<Rightarrow> jsstring list" where
  "splitLoop sep k piece [] = [piece]"
| "splitLoop sep k piece (c # cs) =
     (if 0 < k then splitLoop sep (k - 1) piece cs
      else if prefix sep (c # cs) then piece # splitLoop sep (length sep - 1) [] cs
      else splitLoop sep 0 (piece @ [c]) cs)"

definition splitOn :: "jsstring \<Rightarrow> jsstring \<Rightarrow> jsstring list" where
  "splitOn sep s = splitLoop sep 0 [] s"

fun quoteSearch :: "jschar \<Rightarrow> jschar \<Rightarrow> jsstring \<Rightarrow> jsstring option" where
  "quoteSearch opening closing [] = None"
| "quoteSearch opening closing (c # cs) =
     (let inner = takeWhile (\<lambda>x. x \<noteq> closing) cs in
      if c = opening \<and> 3 \<le> length inner \<and> length inner \<le> 160 \<and> length inner < length cs
      then Some inner
      else quoteSearch opening closing cs)"

definition sanitizeValue :: "(jschar \<Rightarrow> jschar) \<Rightarrow> jsstring \<Rightarrow> jsstring" where
  "sanitizeValue canon v =
     (let cleaned0 = trim (collapseSpaces False v);
          cleaned1 = fold (stripPrefix canon) prefixLiterals cleaned0;
          cleaned2 = (if includesStr cleaned1 (js ''->'')
                      then trim (last (splitOn (js ''->'') cleaned1)) else cleaned1);
          tail = trim (last (splitOn (js '':'') cleaned2));
          cleaned3 = (if includesStr cleaned2 (js '':'') \<and> 0 < length tail \<and>
                         length tail < length cleaned2
                      then tail else cleaned2);
          firstSentence = trim (hd (splitOn (js ''.'') cleaned3));
          cleaned4 = (if includesStr cleaned3 (js ''.'') \<and> 0 < length firstSentence \<and>
                         length firstSentence < length cleaned3
                      then firstSentence else cleaned3)
      in case (case quoteSearch DQUOTE DQUOTE cleaned4 of
                 Some q \<Rightarrow> Some q
               | None \<Rightarrow> quoteSearch 171 187 cleaned4) of
           Some q \<Rightarrow> trim q
         | None \<Rightarrow> cleaned4)"

text \<open>\<open>AnalysisRow\<close>: \<open>personaId\<close> and \<open>segmentId\<close>, then the cleaned fields spread over them.\<close>

definition enrichRow :: "'n analysis_env \<Rightarrow> row \<Rightarrow> session \<Rightarrow> row" where
  "enrichRow env row s =
     (let cleaned = fold (\<lambda>(key, v) acc. AList.update key (sanitizeValue (an_canon env) v) acc) row []
      in fold (\<lambda>(key, v) acc. AList.update key v acc) cleaned
           [(js ''personaId'', s_personaId s), (js ''segmentId'', s_segmentId s)])"

definition buildEmptyRow :: "config \<Rightarrow> row" where
  "buildEmptyRow cfg = normalizeRow [] cfg"

text \<open>
  \<open>buildAnalysisMessages\<close>. The language is Russian when its lower-case form starts with
  \<open>ru\<close>; only \<open>R\<close>, \<open>r\<close>, \<open>U\<close> and \<open>u\<close> have these lower-case forms.
\<close>

definition russianJsonOnly :: jsstring where
  "russianJsonOnly =
     [1042, 1077, 1088, 1085, 1080, 32, 1090, 1086, 1083, 1100, 1082, 1086, 32, 74, 83, 79, 78,
      32, 1087, 1086, 32, 1096, 1072, 1073, 1083, 1086, 1085, 1091, 46, 32, 1041, 1077, 1079,
      32, 1082, 1086, 1084, 1084, 1077, 1085, 1090, 1072, 1088, 1080, 1077, 1074, 46]"

definition buildAnalysisMessages :: "jsstring \<Rightarrow> jsstring \<Rightarrow> message list" where
  "buildAnalysisMessages prompt language =
     (let isRussian = (map lowerAscii (take 2 language) = js ''ru'');
          userPrompt = (if isRussian then russianJsonOnly
                        else js ''Return only JSON in '' @ language @ js ''. No extra commentary.'')
      in [\<lparr>msg_role = System, msg_content = prompt\<rparr>,
          \<lparr>msg_role = User, msg_content = userPrompt\<rparr>])"

definition analysisPayload :: "jsstring \<Rightarrow> jsstring \<Rightarrow> jsstring \<Rightarrow> request" where
  "analysisPayload model prompt language =
     \<lparr>req_model = model, req_messages = buildAnalysisMessages prompt language,
      req_temperature = Some 0, req_max_tokens = Some 250\<rparr>"

text \<open>
  \<open>requestAnalysisContent\<close>: up to three calls, the first non-empty text, else the empty
  string. The first argument of the loop counts the attempts that are left.
\<close>

fun requestAnalysisLoop ::
  "nat \<Rightarrow> client \<Rightarrow> request \<Rightarrow> world \<Rightarrow> (jsstring + jsstring) \<times> world" where
  "requestAnalysisLoop 0 cl payload w = (Inr [], w)"
| "requestAnalysisLoop (Suc n) cl payload w =
     (case createChatCompletion cl payload w of
        (Inl err, w1) \<Rightarrow> (Inl err, w1)
      | (Inr response, w1) \<Rightarrow>
          (let content = extractMessageText (firstMessage response) in
           if content \<noteq> [] then (Inr content, w1)
           else requestAnalysisLoop n cl payload w1))"

definition requestAnalysisContent ::
  "client \<Rightarrow> jsstring \<Rightarrow> jsstring \<Rightarrow> jsstring \<Rightarrow> world \<Rightarrow> (jsstring + jsstring) \<times> world" where
  "requestAnalysisContent cl prompt model language w =
     requestAnalysisLoop 3 cl (analysisPayload model prompt language) w"

text \<open>
  The body of the loop over \<open>modelsToTry\<close> for one model. \<open>strictOrLoose\<close> is a \<open>try\<close> block with
  its \<open>catch\<close>: the strict parse and, when it throws, the loose row if it has a value; the
  source has it twice, for the first text and for the text of the retry. \<open>Some row\<close> is
  \<open>break\<close> with \<open>resolvedRow\<close> set, \<open>None\<close> is going on to the next model.
\<close>

definition strictOrLoose :: "'n analysis_env \<Rightarrow> jsstring \<Rightarrow> config \<Rightarrow> row option" where
  "strictOrLoose env content cfg =
     (case parseAnalysisRow env content cfg of
        Inr row \<Rightarrow> Some row
      | Inl err \<Rightarrow>
          (let looseRow = parseLooseAnalysisRow env content cfg
           in if hasAnyValue looseRow then Some looseRow else None))"

definition retryPrompt :: "jsstring \<Rightarrow> jsstring" where
  "retryPrompt prompt =
     join [NEWLINE]
       [prompt, [],
        js ''REMINDER: Respond ONLY with JSON matching the template. No extra text.'']"

definition tryModel ::
  "'n analysis_env \<Rightarrow> client \<Rightarrow> config \<Rightarrow> jsstring \<Rightarrow> jsstring \<Rightarrow> world
   \<Rightarrow> (jsstring + row option) \<times> world" where
  "tryModel env cl cfg prompt model w =
     (case requestAnalysisContent cl prompt model (cfg_lang cfg) w of
        (Inl err, w1) \<Rightarrow> (Inl err, w1)
      | (Inr content, w1) \<Rightarrow>
          if content = [] then (Inr None, w1)
          else
            (case strictOrLoose env content cfg of
               Some row \<Rightarrow> (Inr (Some row), w1)
             | None \<Rightarrow>
                 (case createChatCompletion cl
                         (analysisPayload model (retryPrompt prompt) (cfg_lang cfg)) w1 of
                    (Inl err, w2) \<Rightarrow> (Inl err, w2)
                  | (Inr retryResponse, w2) \<Rightarrow>
                      (let retryContent = extractMessageText (firstMessage retryResponse) in
                       if retryContent = [] then (Inr None, w2)
                       else (Inr (strictOrLoose env retryContent cfg), w2)))))"

fun tryModels ::
  "'n analysis_env \<Rightarrow> client \<Rightarrow> config \<Rightarrow> jsstring \<Rightarrow> jsstring list \<Rightarrow> world
   \<Rightarrow> (jsstring + (row \<times> jsstring) option) \<times> world" where
  "tryModels env cl cfg prompt [] w = (Inr None, w)"
| "tryModels env cl cfg prompt (model # rest) w =
     (case tryModel env cl cfg prompt model w of
        (Inl err, w1) \<Rightarrow> (Inl err, w1)
      | (Inr (Some resolvedRow), w1) \<Rightarrow> (Inr (Some (resolvedRow, model)), w1)
      | (Inr None, w1) \<Rightarrow> tryModels env cl cfg prompt rest w1)"

text \<open>One iteration of the loop over the sessions: the record pushed to \<open>rows\<close>.\<close>

definition analyzeSession ::
  "'n analysis_env \<Rightarrow> client \<Rightarrow> config \<Rightarrow> jsstring list \<Rightarrow> session \<Rightarrow> world
   \<Rightarrow> (jsstring + row) \<times> world" where
  "analyzeSession env cl cfg fallbackModels s w =
     (case tryModels env cl cfg (buildAnalyticsPrompt env cfg s)
             (cfg_analyzer cfg # fallbackModels) w of
        (Inl err, w1) \<Rightarrow> (Inl err, w1)
      | (Inr None, w1) \<Rightarrow> (Inr (enrichRow env (buildEmptyRow cfg) s), w1)
      | (Inr (Some (resolvedRow, resolvedModel)), w1) \<Rightarrow> (Inr (enrichRow env resolvedRow s), w1))"

text \<open>
  \<open>analyzeInterviews\<close>: the sessions of the log directory (their reading is left to the
  caller of the model), the fallback models, and a record per session. Writing the CSV
  and the summary is left out.
\<close>

fun analyzeSessions ::
  "'n analysis_env \<Rightarrow> client \<Rightarrow> config \<Rightarrow> jsstring list \<Rightarrow> session list \<Rightarrow> world
   \<Rightarrow> (jsstring + row list) \<times> world" where
  "analyzeSessions env cl cfg fallbackModels [] w = (Inr [], w)"
| "analyzeSessions env cl cfg fallbackModels (s # sessions) w =
     (case analyzeSession env cl cfg fallbackModels s w of
        (Inl err, w1) \<Rightarrow> (Inl err, w1)
      | (Inr row, w1) \<Rightarrow>
          (case analyzeSessions env cl cfg fallbackModels sessions w1 of
             (Inl err, w2) \<Rightarrow> (Inl err, w2)
           | (Inr rows, w2) \<Rightarrow> (Inr (row # rows), w2)))"

definition analyzeInterviews ::
  "'n analysis_env \<Rightarrow> 'n load_env \<Rightarrow> client \<Rightarrow> config \<Rightarrow> session list \<Rightarrow> world
   \<Rightarrow> (jsstring + row list) \<times> world" where
  "analyzeInterviews env lenv cl cfg sessions w =
     (let fallback = loadFallbackModels lenv
            \<lparr>opt_filePath = None, opt_primaryModel = Some (cfg_analyzer cfg)\<rparr>
      in analyzeSessions env cl cfg (res_models fallback) sessions w)"


text \<open>
  The message list of an interview, turn by turn: for each step the interviewer's text with
  role \<open>user\<close>, then the respondent's text with role \<open>assistant\<close>.
\<close>

definition turns :: "jsstring list \<Rightarrow> jsstring list \<Rightarrow> message list" where
  "turns questions answers =
     concat (map (\<lambda>(q, a). [\<lparr>msg_role = User, msg_content = q\<rparr>,
                               \<lparr>msg_role = Assistant, msg_content = a\<rparr>]) (zip questions answers))"

text \<open>
  Projections of a trace: the payloads of the calls of \<open>createChatCompletion\<close>, and the
  delays callers waited between their own attempts.
\<close>

definition requestsOf :: "event list \<Rightarrow> request list" where
  "requestsOf tr = concat (map (\<lambda>e. case e of Request p \<Rightarrow> [p] | _ \<Rightarrow> []) tr)"

definition waitsOf :: "event list \<Rightarrow> real list" where
  "waitsOf tr = concat (map (\<lambda>e. case e of Wait d \<Rightarrow> [d] | _ \<Rightarrow> []) tr)"

section \<open>Example configurations\<close>

text \<open>
  A client with the default options whose backend answers every post with the text
  \<open>Fine.\<close> between spaces, a client whose backend answers every post with no choice at all,
  a persona, and an interview of two script lines.
\<close>

definition demoClient :: client where
  "demoClient = LlmClient \<lparr>o_maxRetries = None, o_initialBackoffMs = None\<rparr>
     (\<lambda>n p. Inr [\<lparr>rep_content = Some (js '' Fine. ''), rep_reasoning = None\<rparr>])"

definition silentClient :: client where
  "silentClient = LlmClient \<lparr>o_maxRetries = None, o_initialBackoffMs = None\<rparr> (\<lambda>n p. Inr [])"

definition demoPersona :: persona where
  "demoPersona = \<lparr>pe_id = js ''p-001'', pe_segmentId = js ''s1'', pe_name = js ''Ann'', pe_age = 30,
        pe_occupation = js ''cook'', pe_bio = js ''bio'', pe_hiddenTraits = [js ''shy'']\<rparr>"

definition demoSession :: "client \<Rightarrow> interviewer_mode \<Rightarrow> interview_session" where
  "demoSession cl mode = \<lparr>is_client = cl, is_respondentModel = js ''r'', is_interviewerModel = js ''i'',
     is_interviewScript = [js ''q1'', js ''q2''], is_respondentContext = js ''ctx'',
     is_respondentPrompt = js ''rp'', is_interviewerPrompt = js ''ip'',
     is_interviewerMode = mode, is_persona = demoPersona,
     is_segmentNotes = [], is_language = js ''en''\<rparr>"

text \<open>
  A project with a script of one line, personas that differ in their identifier only, a
  session as an earlier batch persisted it, and the environment of a batch over the
  answering client.
\<close>

definition demoConfig :: config where
  "demoConfig =
     \<lparr>cfg_projectName = js ''demo'', cfg_description = js ''demo'', cfg_iterations = 5,
      cfg_concurrency = 2, cfg_lang = js ''en'', cfg_generator = js ''g'',
      cfg_interviewer = js ''i'', cfg_respondent = js ''r'', cfg_analyzer = js ''a'',
      cfg_advisor = None, cfg_segments = [], cfg_context = js ''ctx'', cfg_script = [js ''q1''],
      cfg_interviewerMode = None,
      cfg_analyticsSchema =
        [\<lparr>m_key = js ''pain'', m_description = js ''Pain points''\<rparr>,
         \<lparr>m_key = js ''frequency'', m_description = js ''How often?''\<rparr>]\<rparr>"

definition demoPersonaOf :: "jsstring \<Rightarrow> persona" where
  "demoPersonaOf pid = demoPersona\<lparr>pe_id := pid\<rparr>"

definition storedSession :: "jsstring \<Rightarrow> session" where
  "storedSession pid =
     \<lparr>s_id = pid @ js ''-t0'', s_projectName = js ''demo'', s_personaId = pid,
      s_segmentId = js ''s1'', s_startedAt = js ''t0'', s_endedAt = js ''t1'', s_messages = []\<rparr>"

definition batchEnv :: "session list \<Rightarrow> persona list \<Rightarrow> 'n sim_env" where
  "batchEnv persisted personas =
     \<lparr>se_respondentPrompt = Some (js ''rp''), se_interviewerPrompt = Some (js ''ip''),
      se_personas = Some personas, se_logs = Some (map persistedFile persisted),
      se_client = demoClient, se_clock = (\<lambda>w. showNat (posts w))\<rparr>"

section \<open>Verification\<close>

subsection \<open>The extractor\<close>

lemmas extractor_defs =
  extractJsonBlock_def fencedGroup_def bracketCandidate_def findJsonStart_def
  findMatchingBracket_def startOk_def skipJsonTag_def fence_def slice_def trim_def
  isSpace_def lowerAscii_def js_def


lemma afterFence_fence: "afterFence (fence @ xs) = Some xs"
  by (simp add: fence_def)

lemma beforeFence_append:
  "\<not> includesStr s fence \<Longrightarrow> beforeFence (s @ NEWLINE # fence) = Some (s @ [NEWLINE])"
proof (induction s)
  case Nil
  then show ?case by (simp add: fence_def)
next
  case (Cons c cs)
  from Cons.prems have np: "\<not> prefix fence (c # cs)" and ni: "\<not> includesStr cs fence"
    by simp_all
  have "\<not> prefix fence (c # cs @ NEWLINE # fence)"
  proof
    assume p: "prefix fence (c # cs @ NEWLINE # fence)"
    show False
    proof (cases cs)
      case Nil
      with p show False by (simp add: fence_def)
    next
      case (Cons d ds)
      show False
      proof (cases ds)
        case Nil
        with p Cons show False by (simp add: fence_def)
      next
        case (Cons e es)
        with p \<open>cs = d # ds\<close> np show False by (simp add: fence_def)
      qed
    qed
  qed
  with Cons.IH [OF ni] show ?case by simp
qed

lemma trim_append_newline:
  assumes "s \<noteq> []" "\<not> isSpace (hd s)" "\<not> isSpace (last s)"
  shows "trim (s @ [NEWLINE]) = s"
proof -
  obtain c cs where s: "s = c # cs" using assms(1) by (cases s) auto
  have nl: "isSpace NEWLINE" by (simp add: isSpace_def)
  have "dropWhile isSpace (s @ [NEWLINE]) = s @ [NEWLINE]"
    using assms(2) s by simp
  moreover have "dropWhile isSpace (rev (s @ [NEWLINE])) = rev s"
    using assms nl by (cases "rev s") (auto simp: last_rev hd_rev)
  ultimately show ?thesis by (simp add: trim_def)
qed

lemma extract_fenced:
  assumes "s \<noteq> []" "\<not> isSpace (hd s)" "\<not> isSpace (last s)" "\<not> includesStr s fence"
  shows "extractJsonBlock (fencedBlock tagged s) = Some s"
proof -
  obtain c cs where s: "s = c # cs" using assms(1) by (cases s) auto
  have skip: "skipJsonTag ((if tagged then js ''json'' else []) @ [NEWLINE] @ s @ [NEWLINE] @ fence)
      = NEWLINE # s @ NEWLINE # fence"
    by (simp add: skipJsonTag_def js_def lowerAscii_def)
  have nl: "isSpace NEWLINE" by (simp add: isSpace_def)
  have dw: "dropWhile isSpace (NEWLINE # s @ NEWLINE # fence) = s @ NEWLINE # fence"
    using assms(2) s nl by simp
  have "fencedGroup (fencedBlock tagged s) = Some (s @ [NEWLINE])"
    unfolding fencedGroup_def fencedBlock_def afterFence_fence
    using skip dw beforeFence_append [OF assms(4)] by simp
  then show ?thesis
    using trim_append_newline [OF assms(1-3)] s
    by (simp add: extractJsonBlock_def)
qed

text \<open>
  C9, as stated, fails: the JSON text of the string value made of three backticks is a
  double quote, three backticks and a double quote. In a fenced block the lazy group stops
  at the backticks inside the string, and the extractor returns a lone double quote, which
  is not the JSON text and is not JSON at all.
\<close>

theorem extract_fenced_backticks_counterexample:
  "extractJsonBlock (fencedBlock True (DQUOTE # fence @ [DQUOTE])) = Some [DQUOTE]"
  by (simp add: extractor_defs fencedBlock_def)

text \<open>
  C9, amended: \<open>stringify\<close> and \<open>parse\<close> stand for \<open>JSON.stringify\<close> and \<open>JSON.parse\<close>. For every
  value whose JSON text parses back to it, has no white space at either end (as every
  output of \<open>JSON.stringify\<close>) and holds no run of three backticks, the extractor applied to
  the fenced block around the JSON text returns a string that parses back to the value
  (it returns the JSON text itself).
\<close>

theorem extract_fenced_roundtrip:
  assumes "parse (stringify v) = Some v"
    and "stringify v \<noteq> []"
    and "\<not> isSpace (hd (stringify v))"
    and "\<not> isSpace (last (stringify v))"
    and "\<not> includesStr (stringify v) fence"
  shows "extractJsonBlock (fencedBlock tagged (stringify v)) = Some (stringify v) \<and>
         Option.bind (extractJsonBlock (fencedBlock tagged (stringify v))) parse = Some v"
  using extract_fenced [OF assms(2-5), of tagged] assms(1) by simp

theorem extract_fenced_roundtrip_witness:
  "Option.bind
     (extractJsonBlock (fencedBlock True (js ''{\"a\":[1,\"x\"]}'')))
     (\<lambda>s. if s = js ''{\"a\":[1,\"x\"]}''
          then Some (JObj [(js ''a'', JArr [JNum (1::int), JStr (js ''x'')])]) else None)
   = Some (JObj [(js ''a'', JArr [JNum 1, JStr (js ''x'')])])"
  using extract_fenced_roundtrip
    [of "\<lambda>s. if s = js ''{\"a\":[1,\"x\"]}''
          then Some (JObj [(js ''a'', JArr [JNum (1::int), JStr (js ''x'')])]) else None"
        "\<lambda>v. js ''{\"a\":[1,\"x\"]}''"
        "JObj [(js ''a'', JArr [JNum (1::int), JStr (js ''x'')])]" True]
  by (simp add: js_def isSpace_def fence_def)

subsection \<open>Fallback models\<close>













subsection \<open>The completion client\<close>

lemma includesStr_Nil: "includesStr s []"
  by (cases s) simp_all

lemma includesStr_prefix: "prefix b s \<Longrightarrow> includesStr s b"
  by (cases s) simp_all

lemma includesStr_append: "includesStr (a @ b @ c) b"
proof (induction a)
  case Nil
  show ?case by (simp add: includesStr_prefix)
next
  case (Cons x a)
  then show ?case by simp
qed

text \<open>
  C1. When the retry budget allows two retries and the backend fails the first two posts of
  a call with status 429 and answers the third, \<open>createChatCompletion\<close> returns that answer
  after exactly three posts (two retries): before the first retry it sleeps the maximum of
  the initial backoff and the server's retry delay, before the second the maximum of twice
  the initial backoff and the server's retry delay, it reports one progress tick, and the
  time slept is at least the initial backoff plus twice the initial backoff.
\<close>

theorem createChatCompletion_two_rate_limits:
  assumes "2 \<le> cl_maxRetries cl"
    and "cl_post cl (posts w) payload = Inl e1" and "statusOf e1 = Some 429"
    and "cl_post cl (posts w + 1) payload = Inl e2" and "statusOf e2 = Some 429"
    and "cl_post cl (posts w + 2) payload = Inr result"
  shows "createChatCompletion cl payload w =
           (Inr result,
            w\<lparr>posts := posts w + 3,
              trace := trace w @
                [Request payload,
                 Post payload, Sleep (max (cl_initialBackoffMs cl) (retryAfterMs e1)),
                 Post payload, Sleep (max (cl_initialBackoffMs cl * 2) (retryAfterMs e2)),
                 Post payload, Tick 1]\<rparr>) \<and>
         cl_initialBackoffMs cl + 2 * cl_initialBackoffMs cl \<le>
           max (cl_initialBackoffMs cl) (retryAfterMs e1) +
           max (cl_initialBackoffMs cl * 2) (retryAfterMs e2)"
proof -
  have r1: "shouldRetry e1" and r2: "shouldRetry e2"
    using assms(3,5) by (simp_all add: shouldRetry_def)
  let ?w0 = "emit (Request payload) w"
  let ?w1 = "emit (Sleep (max (cl_initialBackoffMs cl) (retryAfterMs e1))) (doPost payload ?w0)"
  let ?w2 = "emit (Sleep (max (cl_initialBackoffMs cl * 2) (retryAfterMs e2))) (doPost payload ?w1)"
  have p0: "posts ?w0 = posts w" and p1: "posts ?w1 = posts w + 1" and p2: "posts ?w2 = posts w + 2"
    by (simp_all add: emit_def doPost_def)
  have s1: "createLoop cl payload 0 (cl_initialBackoffMs cl) ?w0 =
            createLoop cl payload 1 (cl_initialBackoffMs cl * 2) ?w1"
    using assms(1,2) r1 by (subst createLoop.simps) (simp add: p0)
  have s2: "createLoop cl payload 1 (cl_initialBackoffMs cl * 2) ?w1 =
            createLoop cl payload 2 (cl_initialBackoffMs cl * 2 * 2) ?w2"
    using assms(1,4) r2 by (subst createLoop.simps) (simp add: p1 numeral_2_eq_2)
  have s3: "createLoop cl payload 2 (cl_initialBackoffMs cl * 2 * 2) ?w2 =
            (Inr result, emit (Tick 1) (doPost payload ?w2))"
    using assms(6) by (subst createLoop.simps) (simp add: p2)
  have "createChatCompletion cl payload w = (Inr result, emit (Tick 1) (doPost payload ?w2))"
    by (simp only: createChatCompletion_def s1 s2 s3)
  moreover have "emit (Tick 1) (doPost payload ?w2) =
      w\<lparr>posts := posts w + 3,
        trace := trace w @
          [Request payload,
           Post payload, Sleep (max (cl_initialBackoffMs cl) (retryAfterMs e1)),
           Post payload, Sleep (max (cl_initialBackoffMs cl * 2) (retryAfterMs e2)),
           Post payload, Tick 1]\<rparr>"
    by (simp add: emit_def doPost_def)
  ultimately show ?thesis by simp
qed

theorem createChatCompletion_two_rate_limits_witness:
  "createChatCompletion
     (LlmClient \<lparr>o_maxRetries = None, o_initialBackoffMs = None\<rparr>
        (\<lambda>n p. if n = 0 then Inl (AxiosError (Some 429) None (js ''Request failed with status code 429'') (Some 5) None)
               else if n = 1 then Inl (AxiosError (Some 429) None (js ''Request failed with status code 429'') None None)
               else Inr [\<lparr>rep_content = Some (js ''ok''), rep_reasoning = None\<rparr>]))
     \<lparr>req_model = js ''m'', req_messages = [], req_temperature = None, req_max_tokens = None\<rparr>
     \<lparr>posts = 0, trace = []\<rparr> =
   (Inr [\<lparr>rep_content = Some (js ''ok''), rep_reasoning = None\<rparr>],
    \<lparr>posts = 3,
     trace =
       [Request \<lparr>req_model = js ''m'', req_messages = [], req_temperature = None, req_max_tokens = None\<rparr>,
        Post \<lparr>req_model = js ''m'', req_messages = [], req_temperature = None, req_max_tokens = None\<rparr>,
        Sleep 5000,
        Post \<lparr>req_model = js ''m'', req_messages = [], req_temperature = None, req_max_tokens = None\<rparr>,
        Sleep 4000,
        Post \<lparr>req_model = js ''m'', req_messages = [], req_temperature = None, req_max_tokens = None\<rparr>,
        Tick 1]\<rparr>)"
  using createChatCompletion_two_rate_limits
    [of "LlmClient \<lparr>o_maxRetries = None, o_initialBackoffMs = None\<rparr>
        (\<lambda>n p. if n = 0 then Inl (AxiosError (Some 429) None (js ''Request failed with status code 429'') (Some 5) None)
               else if n = 1 then Inl (AxiosError (Some 429) None (js ''Request failed with status code 429'') None None)
               else Inr [\<lparr>rep_content = Some (js ''ok''), rep_reasoning = None\<rparr>])"
        "\<lparr>posts = 0, trace = []\<rparr>"
        "\<lparr>req_model = js ''m'', req_messages = [], req_temperature = None, req_max_tokens = None\<rparr>"
        "AxiosError (Some 429) None (js ''Request failed with status code 429'') (Some 5) None"
        "AxiosError (Some 429) None (js ''Request failed with status code 429'') None None"
        "[\<lparr>rep_content = Some (js ''ok''), rep_reasoning = None\<rparr>]"]
  by (simp add: LlmClient_def)

text \<open>
  C2. When the first post of a call fails with an error that is not transient (no timeout,
  status not 429, 500 or 503), \<open>createChatCompletion\<close> raises at once: one post, no retry, no
  sleep, no progress tick. The message of the raised error contains the message of the
  underlying error, the serialized response body (when there is one) and the status (when
  there is one).
\<close>

theorem createChatCompletion_non_transient:
  assumes "cl_post cl (posts w) payload = Inl error" and "\<not> shouldRetry error"
  shows "createChatCompletion cl payload w =
           (Inl (failureMessage error),
            w\<lparr>posts := posts w + 1, trace := trace w @ [Request payload, Post payload]\<rparr>) \<and>
         includesStr (failureMessage error) (messageOf error) \<and>
         includesStr (failureMessage error) (responseDataOf error) \<and>
         (\<forall>status. statusOf error = Some status \<and> status \<noteq> 0 \<longrightarrow>
            includesStr (failureMessage error) (js ''(status '' @ showNat status @ js '')''))"
proof -
  have "createChatCompletion cl payload w = (Inl (failureMessage error), doPost payload (emit (Request payload) w))"
    unfolding createChatCompletion_def
    using assms by (subst createLoop.simps) (simp add: emit_def)
  then have A: "createChatCompletion cl payload w =
           (Inl (failureMessage error),
            w\<lparr>posts := posts w + 1, trace := trace w @ [Request payload, Post payload]\<rparr>)"
    by (simp add: emit_def doPost_def)
  have B: "includesStr (failureMessage error) (messageOf error)"
    using includesStr_append [of "js ''LLM request failed'' @ statusInfo error @ js '': ''" "messageOf error" "details error"]
    by (simp add: failureMessage_def)
  have C: "includesStr (failureMessage error) (responseDataOf error)"
  proof (cases "responseDataOf error = []")
    case True
    then show ?thesis by (simp add: includesStr_Nil)
  next
    case False
    then show ?thesis
      using includesStr_append [of "js ''LLM request failed'' @ statusInfo error @ js '': '' @ messageOf error @ js '' - ''" "responseDataOf error" "[]"]
      by (simp add: failureMessage_def details_def)
  qed
  have D: "\<forall>status. statusOf error = Some status \<and> status \<noteq> 0 \<longrightarrow>
            includesStr (failureMessage error) (js ''(status '' @ showNat status @ js '')'')"
  proof (intro allI impI)
    fix status assume "statusOf error = Some status \<and> status \<noteq> 0"
    then have "statusInfo error = js '' '' @ (js ''(status '' @ showNat status @ js '')'')"
      by (simp add: statusInfo_def js_def)
    then show "includesStr (failureMessage error) (js ''(status '' @ showNat status @ js '')'')"
      using includesStr_append [of "js ''LLM request failed'' @ js '' ''" "js ''(status '' @ showNat status @ js '')''" "js '': '' @ messageOf error @ details error"]
      by (simp add: failureMessage_def)
  qed
  show ?thesis using A B C D by blast
qed

theorem createChatCompletion_non_transient_witness:
  "createChatCompletion
     (LlmClient \<lparr>o_maxRetries = None, o_initialBackoffMs = None\<rparr>
        (\<lambda>n p. Inl (AxiosError (Some 400) None (js ''Request failed with status code 400'') None
                      (Some (js ''{\"error\":\"bad request\"}'')))))
     \<lparr>req_model = js ''m'', req_messages = [], req_temperature = None, req_max_tokens = None\<rparr>
     \<lparr>posts = 0, trace = []\<rparr> =
   (Inl (js ''LLM request failed (status 400): Request failed with status code 400 - {\"error\":\"bad request\"}''),
    \<lparr>posts = 1,
     trace =
       [Request \<lparr>req_model = js ''m'', req_messages = [], req_temperature = None, req_max_tokens = None\<rparr>,
        Post \<lparr>req_model = js ''m'', req_messages = [], req_temperature = None, req_max_tokens = None\<rparr>]\<rparr>)"
  using createChatCompletion_non_transient
    [of "LlmClient \<lparr>o_maxRetries = None, o_initialBackoffMs = None\<rparr>
        (\<lambda>n p. Inl (AxiosError (Some 400) None (js ''Request failed with status code 400'') None
                      (Some (js ''{\"error\":\"bad request\"}''))))"
        "\<lparr>posts = 0, trace = []\<rparr>"
        "\<lparr>req_model = js ''m'', req_messages = [], req_temperature = None, req_max_tokens = None\<rparr>"
        "AxiosError (Some 400) None (js ''Request failed with status code 400'') None
                      (Some (js ''{\"error\":\"bad request\"}''))"]
  by (simp add: LlmClient_def shouldRetry_def failureMessage_def statusInfo_def details_def js_def)


subsection \<open>The interview session\<close>

lemmas demo_defs = demoSession_def demoClient_def silentClient_def demoPersona_def LlmClient_def
  demoConfig_def demoPersonaOf_def storedSession_def batchEnv_def
lemmas eval_defs = run_def 
     requestContent_def requestLoop.simps createChatCompletion_def createLoop.simps
     interviewerTurn_def respondentParams_def interviewerParams_def emit_def doPost_def cleanedText_def
     extractMessageText_def firstMessage_def sanitizeContent_def trim_def isSpace_def
     tagAt_def tags_def lowerAscii_def js_def attemptMessages_def attemptPayload_def Let_def
     interviewerRetryPrompt_def

lemma interviewerTurn_script:
  "is_interviewerMode this = ScriptMode \<Longrightarrow> interviewerTurn this isys messages step w = (step, w)"
  by (simp add: interviewerTurn_def)

lemma runSteps_turns:
  "runSteps this rsys isys steps messages w = (Inr out, w') \<Longrightarrow>
   \<exists>questions answers.
     length questions = length steps \<and> length answers = length steps \<and>
     out = messages @ turns questions answers \<and>
     (is_interviewerMode this = ScriptMode \<longrightarrow> questions = steps)"
proof (induction steps arbitrary: messages w)
  case Nil
  then show ?case by (auto simp: turns_def)
next
  case (Cons step rest)
  obtain q w1 where it: "interviewerTurn this isys messages step w = (q, w1)"
    by (cases "interviewerTurn this isys messages step w")
  obtain r w2 where rc: "requestContent (is_client this)
      (respondentParams this rsys (messages @ [\<lparr>msg_role = User, msg_content = q\<rparr>])) w1 = (r, w2)"
    by (cases "requestContent (is_client this)
      (respondentParams this rsys (messages @ [\<lparr>msg_role = User, msg_content = q\<rparr>])) w1")
  from Cons.prems it rc obtain a where a: "r = Inr a"
    and rest: "runSteps this rsys isys rest
       (messages @ [\<lparr>msg_role = User, msg_content = q\<rparr>, \<lparr>msg_role = Assistant, msg_content = a\<rparr>]) w2
       = (Inr out, w')"
    by (cases r) auto
  from Cons.IH [OF rest] obtain qs as where
    l: "length qs = length rest" "length as = length rest"
    and out: "out = (messages @ [\<lparr>msg_role = User, msg_content = q\<rparr>,
                \<lparr>msg_role = Assistant, msg_content = a\<rparr>]) @ turns qs as"
    and sm: "is_interviewerMode this = ScriptMode \<longrightarrow> qs = rest"
    by blast
  have q: "is_interviewerMode this = ScriptMode \<longrightarrow> q = step"
    using it by (auto simp: interviewerTurn_def)
  show ?case
    apply (rule exI [of _ "q # qs"], rule exI [of _ "a # as"])
    using l out sm q by (simp add: turns_def)
qed

lemma length_turns: "length qs = n \<Longrightarrow> length as = n \<Longrightarrow> length (turns qs as) = 2 * n"
proof (induction qs arbitrary: as n)
  case Nil
  then show ?case by (simp add: turns_def)
next
  case (Cons q qs)
  then obtain a as' where "as = a # as'" by (cases as) auto
  with Cons show ?case by (auto simp: turns_def)
qed

text \<open>
  C5. A session that \<open>run\<close> completes has twice as many messages as the script has steps:
  for each step, in script order, one interviewer turn with role \<open>user\<close> followed by one
  respondent turn with role \<open>assistant\<close>, in either interviewer mode. In \<open>script\<close> mode the
  interviewer turns are the script lines themselves.
\<close>

theorem run_turns:
  assumes "run this clock w = (Inr s, w')"
  shows "length (s_messages s) = 2 * length (is_interviewScript this) \<and>
         (\<exists>questions answers.
            length questions = length (is_interviewScript this) \<and>
            length answers = length (is_interviewScript this) \<and>
            s_messages s = turns questions answers \<and>
            (is_interviewerMode this = ScriptMode \<longrightarrow> questions = is_interviewScript this))"
proof -
  obtain r w1 where rs: "runSteps this (buildRespondentSystem this) (buildInterviewerSystem this)
             (is_interviewScript this) [] w = (r, w1)"
    by (cases "runSteps this (buildRespondentSystem this) (buildInterviewerSystem this)
             (is_interviewScript this) [] w")
  with assms obtain out where r: "r = Inr out" and s: "s_messages s = out"
    by (cases r) (auto simp: run_def Let_def)
  from runSteps_turns [OF rs [unfolded r]] obtain qs as where
    l: "length qs = length (is_interviewScript this)" "length as = length (is_interviewScript this)"
    and out: "out = [] @ turns qs as"
    and sm: "is_interviewerMode this = ScriptMode \<longrightarrow> qs = is_interviewScript this"
    by blast
  from length_turns [OF l] out s l sm show ?thesis by auto
qed

theorem run_turns_witness:
  "case run (demoSession demoClient LlmMode) (\<lambda>w. showNat (posts w)) \<lparr>posts = 0, trace = []\<rparr> of
     (Inr s, w') \<Rightarrow>
        length (s_messages s) = 4 \<and>
        s_messages s = turns [js ''Fine.'', js ''Fine.''] [js ''Fine.'', js ''Fine.''] \<and>
        posts w' = 4
   | (Inl err, w') \<Rightarrow> False"
  using run_turns [of "demoSession demoClient LlmMode" "\<lambda>w. showNat (posts w)" "\<lparr>posts = 0, trace = []\<rparr>"]
  by (simp add: demo_defs eval_defs turns_def)


lemma requestsOf_append: "requestsOf (a @ b) = requestsOf a @ requestsOf b"
  by (simp add: requestsOf_def)

lemma waitsOf_append: "waitsOf (a @ b) = waitsOf a @ waitsOf b"
  by (simp add: waitsOf_def)

lemma createLoop_trace:
  "createLoop cl payload attempt backoff w = (r, w') \<Longrightarrow>
   requestsOf (trace w') = requestsOf (trace w) \<and> waitsOf (trace w') = waitsOf (trace w)"
proof (induction cl payload attempt backoff w rule: createLoop.induct)
  case (1 cl payload attempt backoff w)
  show ?case
  proof (cases "cl_post cl (posts w) payload")
    case (Inr response)
    with "1.prems" show ?thesis
      by (subst (asm) createLoop.simps)
         (auto simp: emit_def doPost_def requestsOf_def waitsOf_def)
  next
    case (Inl error)
    show ?thesis
    proof (cases "\<not> shouldRetry error \<or> cl_maxRetries cl \<le> real attempt")
      case True
      with "1.prems" Inl show ?thesis
        by (subst (asm) createLoop.simps)
           (auto simp: emit_def doPost_def requestsOf_def waitsOf_def)
    next
      case False
      with "1.prems" Inl have rec: "createLoop cl payload (attempt + 1) (backoff * 2)
          (emit (Sleep (max backoff (retryAfterMs error))) (doPost payload w)) = (r, w')"
        by (subst (asm) createLoop.simps) auto
      from "1.IH" [OF Inl False rec] show ?thesis
        by (simp add: emit_def doPost_def requestsOf_def waitsOf_def)
    qed
  qed
qed

lemma createChatCompletion_trace:
  "createChatCompletion cl payload w = (r, w') \<Longrightarrow>
   requestsOf (trace w') = requestsOf (trace w) @ [payload] \<and>
   waitsOf (trace w') = waitsOf (trace w)"
  unfolding createChatCompletion_def
  by (drule createLoop_trace) (simp add: emit_def requestsOf_def waitsOf_def)

lemma requestLoop_exhausted:
  assumes empty: "\<forall>payload w. \<exists>response w'.
      createChatCompletion cl payload w = (Inr response, w') \<and> cleanedText response = []"
  shows "attempt \<le> maxAttempts \<Longrightarrow>
    \<exists>w'. requestLoop cl params maxAttempts attempt w =
            (Inl (cp_label params @ js '' response missing.''), w') \<and>
          requestsOf (trace w') =
            requestsOf (trace w) @ map (attemptPayload params) [attempt..<maxAttempts] \<and>
          waitsOf (trace w') =
            waitsOf (trace w) @ map (\<lambda>k. 1000 * real k) [attempt + 1..<maxAttempts]"
proof (induction "maxAttempts - attempt" arbitrary: attempt w)
  case 0
  then have "attempt = maxAttempts" by simp
  then show ?case by (subst requestLoop.simps) simp
next
  case (Suc n)
  then have lt: "attempt < maxAttempts" by simp
  from empty obtain response w1 where
    c: "createChatCompletion cl (attemptPayload params attempt) w = (Inr response, w1)"
    and e: "cleanedText response = []"
    by blast
  let ?w2 = "if attempt + 1 < maxAttempts then emit (Wait (1000 * real (attempt + 1))) w1 else w1"
  have step: "requestLoop cl params maxAttempts attempt w =
              requestLoop cl params maxAttempts (attempt + 1) ?w2"
    using lt c e by (subst requestLoop.simps) simp
  have n: "n = maxAttempts - (attempt + 1)" using Suc(2) by simp
  have le: "attempt + 1 \<le> maxAttempts" using lt by simp
  from Suc(1) [OF n le, of ?w2] obtain w' where
    r: "requestLoop cl params maxAttempts (attempt + 1) ?w2 =
          (Inl (cp_label params @ js '' response missing.''), w')"
    and rq: "requestsOf (trace w') =
          requestsOf (trace ?w2) @ map (attemptPayload params) [attempt + 1..<maxAttempts]"
    and wt: "waitsOf (trace w') =
          waitsOf (trace ?w2) @ map (\<lambda>k. 1000 * real k) [attempt + 1 + 1..<maxAttempts]"
    by blast
  from createChatCompletion_trace [OF c] have
    t1: "requestsOf (trace w1) = requestsOf (trace w) @ [attemptPayload params attempt]"
    and t2: "waitsOf (trace w1) = waitsOf (trace w)" by simp_all
  have rq2: "requestsOf (trace ?w2) = requestsOf (trace w) @ [attemptPayload params attempt]"
    using t1 by (simp add: emit_def requestsOf_def)
  have wt2: "waitsOf (trace ?w2) =
      waitsOf (trace w) @ (if attempt + 1 < maxAttempts then [1000 * real (attempt + 1)] else [])"
    using t2 by (simp add: emit_def waitsOf_def)
  have R: "requestsOf (trace ?w2) @ map (attemptPayload params) [attempt + 1..<maxAttempts] =
           requestsOf (trace w) @ map (attemptPayload params) [attempt..<maxAttempts]"
    unfolding rq2 using lt by (simp add: upt_conv_Cons)
  have W: "waitsOf (trace ?w2) @ map (\<lambda>k. 1000 * real k) [attempt + 1 + 1..<maxAttempts] =
           waitsOf (trace w) @ map (\<lambda>k. 1000 * real k) [attempt + 1..<maxAttempts]"
  proof (cases "attempt + 1 < maxAttempts")
    case True
    then show ?thesis unfolding wt2 by (simp add: upt_conv_Cons)
  next
    case False
    then show ?thesis unfolding wt2 by simp
  qed
  show ?case
    using step r rq wt R W by (intro exI [of _ w']) simp
qed

lemma requestContent_raise:
  assumes "createChatCompletion cl (attemptPayload params 0) w = (Inl err, w1)"
    and "cp_maxAttempts params \<noteq> Some 0"
  shows "requestContent cl params w = (Inl err, w1)"
  unfolding requestContent_def using assms
  by (subst requestLoop.simps) (auto split: option.splits)

text \<open>
  C7. In \<open>llm\<close> mode a failure of the interviewer's request, whether its three attempts are
  used up or the client raises, makes the turn the literal script line, and the step goes
  on with the respondent's request on that line. The respondent's request has an attempt
  budget of 5 where the interviewer's has the default 3; a failure of the respondent's
  request is the outcome of the whole loop and of \<open>run\<close>. With a backend that never yields
  text, the interviewer's request makes 3 calls with the delays 1000 and 2000 between
  them, the respondent's makes 5 calls with the delays 1000, 2000, 3000 and 4000, and each
  raises its \<open>response missing\<close> error.
\<close>

theorem interviewer_fallback_respondent_failure:
  "(is_interviewerMode this = LlmMode \<longrightarrow>
      (\<forall>err w1.
         requestContent (is_client this) (interviewerParams this isys messages step) w = (Inl err, w1) \<longrightarrow>
         interviewerTurn this isys messages step w = (step, w1) \<and>
         runSteps this rsys isys (step # rest) messages w =
           (case requestContent (is_client this)
                   (respondentParams this rsys
                      (messages @ [\<lparr>msg_role = User, msg_content = step\<rparr>])) w1 of
              (Inl e, w2) \<Rightarrow> (Inl e, w2)
            | (Inr a, w2) \<Rightarrow>
                runSteps this rsys isys rest
                  (messages @ [\<lparr>msg_role = User, msg_content = step\<rparr>,
                               \<lparr>msg_role = Assistant, msg_content = a\<rparr>]) w2))) \<and>
   (\<forall>err w1.
      createChatCompletion (is_client this)
        (attemptPayload (interviewerParams this isys messages step) 0) w = (Inl err, w1) \<longrightarrow>
      requestContent (is_client this) (interviewerParams this isys messages step) w = (Inl err, w1)) \<and>
   cp_maxAttempts (interviewerParams this isys messages step) = None \<and>
   cp_maxAttempts (respondentParams this rsys messages) = Some 5 \<and>
   (\<forall>q w1 err w2.
      interviewerTurn this isys messages step w = (q, w1) \<and>
      requestContent (is_client this)
        (respondentParams this rsys (messages @ [\<lparr>msg_role = User, msg_content = q\<rparr>])) w1
        = (Inl err, w2) \<longrightarrow>
      runSteps this rsys isys (step # rest) messages w = (Inl err, w2)) \<and>
   (\<forall>err w2.
      runSteps this (buildRespondentSystem this) (buildInterviewerSystem this)
        (is_interviewScript this) [] w = (Inl err, w2) \<longrightarrow>
      run this clock w = (Inl err, w2)) \<and>
   ((\<forall>payload w. \<exists>response w'.
        createChatCompletion (is_client this) payload w = (Inr response, w') \<and>
        cleanedText response = []) \<longrightarrow>
    (\<exists>w1. requestContent (is_client this) (interviewerParams this isys messages step) w =
             (Inl (js ''interviewer response missing.''), w1) \<and>
           requestsOf (trace w1) =
             requestsOf (trace w) @
             map (attemptPayload (interviewerParams this isys messages step)) [0, 1, 2] \<and>
           waitsOf (trace w1) = waitsOf (trace w) @ [1000, 2000]) \<and>
    (\<exists>w2. requestContent (is_client this) (respondentParams this rsys messages) w =
             (Inl (js ''respondent response missing.''), w2) \<and>
           requestsOf (trace w2) =
             requestsOf (trace w) @
             map (attemptPayload (respondentParams this rsys messages)) [0, 1, 2, 3, 4] \<and>
           waitsOf (trace w2) = waitsOf (trace w) @ [1000, 2000, 3000, 4000]))"
proof -
  let ?cl = "is_client this"
  let ?ip = "interviewerParams this isys messages step"
  let ?rp = "respondentParams this rsys messages"
  have fallback: "is_interviewerMode this = LlmMode \<longrightarrow>
      (\<forall>err w1.
         requestContent ?cl ?ip w = (Inl err, w1) \<longrightarrow>
         interviewerTurn this isys messages step w = (step, w1) \<and>
         runSteps this rsys isys (step # rest) messages w =
           (case requestContent ?cl
                   (respondentParams this rsys
                      (messages @ [\<lparr>msg_role = User, msg_content = step\<rparr>])) w1 of
              (Inl e, w2) \<Rightarrow> (Inl e, w2)
            | (Inr a, w2) \<Rightarrow>
                runSteps this rsys isys rest
                  (messages @ [\<lparr>msg_role = User, msg_content = step\<rparr>,
                               \<lparr>msg_role = Assistant, msg_content = a\<rparr>]) w2))"
    by (auto simp: interviewerTurn_def split: prod.splits sum.splits)
  have raise: "\<forall>err w1.
      createChatCompletion ?cl (attemptPayload ?ip 0) w = (Inl err, w1) \<longrightarrow>
      requestContent ?cl ?ip w = (Inl err, w1)"
    by (auto intro!: requestContent_raise simp: interviewerParams_def)
  have budgets: "cp_maxAttempts ?ip = None" "cp_maxAttempts ?rp = Some 5"
    by (simp_all add: interviewerParams_def respondentParams_def)
  have fails: "\<forall>q w1 err w2.
      interviewerTurn this isys messages step w = (q, w1) \<and>
      requestContent ?cl
        (respondentParams this rsys (messages @ [\<lparr>msg_role = User, msg_content = q\<rparr>])) w1
        = (Inl err, w2) \<longrightarrow>
      runSteps this rsys isys (step # rest) messages w = (Inl err, w2)"
    by auto
  have runfails: "\<forall>err w2.
      runSteps this (buildRespondentSystem this) (buildInterviewerSystem this)
        (is_interviewScript this) [] w = (Inl err, w2) \<longrightarrow>
      run this clock w = (Inl err, w2)"
    by (auto simp: run_def Let_def)
  have exhausted: "(\<forall>payload w. \<exists>response w'.
        createChatCompletion ?cl payload w = (Inr response, w') \<and>
        cleanedText response = []) \<longrightarrow>
    (\<exists>w1. requestContent ?cl ?ip w = (Inl (js ''interviewer response missing.''), w1) \<and>
           requestsOf (trace w1) = requestsOf (trace w) @ map (attemptPayload ?ip) [0, 1, 2] \<and>
           waitsOf (trace w1) = waitsOf (trace w) @ [1000, 2000]) \<and>
    (\<exists>w2. requestContent ?cl ?rp w = (Inl (js ''respondent response missing.''), w2) \<and>
           requestsOf (trace w2) = requestsOf (trace w) @ map (attemptPayload ?rp) [0, 1, 2, 3, 4] \<and>
           waitsOf (trace w2) = waitsOf (trace w) @ [1000, 2000, 3000, 4000])"
  proof
    assume empty: "\<forall>payload w. \<exists>response w'.
        createChatCompletion ?cl payload w = (Inr response, w') \<and> cleanedText response = []"
    have u3: "[0..<3] = [0, 1, 2::nat]" and u13: "[0 + 1..<3] = [1, 2::nat]"
      and u5: "[0..<5] = [0, 1, 2, 3, 4::nat]" and u15: "[0 + 1..<5] = [1, 2, 3, 4::nat]"
      by (simp_all add: upt_rec)
    have li: "cp_label ?ip @ js '' response missing.'' = js ''interviewer response missing.''"
      and lr: "cp_label ?rp @ js '' response missing.'' = js ''respondent response missing.''"
      by (simp_all add: interviewerParams_def respondentParams_def js_def)
    have ri: "requestContent ?cl ?ip w = requestLoop ?cl ?ip 3 0 w"
      and rr: "requestContent ?cl ?rp w = requestLoop ?cl ?rp 5 0 w"
      by (simp_all add: requestContent_def budgets)
    have w3: "map (\<lambda>k. 1000 * real k) [1, 2] = [1000, 2000]"
      and w5: "map (\<lambda>k. 1000 * real k) [1, 2, 3, 4] = [1000, 2000, 3000, 4000]"
      by simp_all
    from requestLoop_exhausted [OF empty, of 0 3 ?ip w]
    have i: "\<exists>w1. requestContent ?cl ?ip w = (Inl (js ''interviewer response missing.''), w1) \<and>
           requestsOf (trace w1) = requestsOf (trace w) @ map (attemptPayload ?ip) [0, 1, 2] \<and>
           waitsOf (trace w1) = waitsOf (trace w) @ [1000, 2000]"
      unfolding u3 u13 li ri w3 by simp
    from requestLoop_exhausted [OF empty, of 0 5 ?rp w]
    have r: "\<exists>w2. requestContent ?cl ?rp w = (Inl (js ''respondent response missing.''), w2) \<and>
           requestsOf (trace w2) = requestsOf (trace w) @ map (attemptPayload ?rp) [0, 1, 2, 3, 4] \<and>
           waitsOf (trace w2) = waitsOf (trace w) @ [1000, 2000, 3000, 4000]"
      unfolding u5 u15 lr rr w5 by simp
    from i r show "(\<exists>w1. requestContent ?cl ?ip w = (Inl (js ''interviewer response missing.''), w1) \<and>
           requestsOf (trace w1) = requestsOf (trace w) @ map (attemptPayload ?ip) [0, 1, 2] \<and>
           waitsOf (trace w1) = waitsOf (trace w) @ [1000, 2000]) \<and>
    (\<exists>w2. requestContent ?cl ?rp w = (Inl (js ''respondent response missing.''), w2) \<and>
           requestsOf (trace w2) = requestsOf (trace w) @ map (attemptPayload ?rp) [0, 1, 2, 3, 4] \<and>
           waitsOf (trace w2) = waitsOf (trace w) @ [1000, 2000, 3000, 4000])"
      by (rule conjI)
  qed
  from fallback raise budgets fails runfails exhausted show ?thesis
    by (intro conjI)
qed

lemma silentClient_replies:
  "createChatCompletion silentClient payload w =
     (Inr [], emit (Tick 1) (doPost payload (emit (Request payload) w)))"
  unfolding createChatCompletion_def
  by (subst createLoop.simps) (simp add: silentClient_def LlmClient_def)

theorem interviewer_fallback_respondent_failure_witness:
  "(\<exists>w1. requestContent silentClient
            (interviewerParams (demoSession silentClient LlmMode) (js ''is'') [] (js ''q1''))
            \<lparr>posts = 0, trace = []\<rparr> = (Inl (js ''interviewer response missing.''), w1) \<and>
          waitsOf (trace w1) = [1000, 2000] \<and>
          interviewerTurn (demoSession silentClient LlmMode) (js ''is'') [] (js ''q1'')
            \<lparr>posts = 0, trace = []\<rparr> = (js ''q1'', w1)) \<and>
   (\<exists>w2. requestContent silentClient
            (respondentParams (demoSession silentClient LlmMode) (js ''rs'') [])
            \<lparr>posts = 0, trace = []\<rparr> = (Inl (js ''respondent response missing.''), w2) \<and>
          waitsOf (trace w2) = [1000, 2000, 3000, 4000])"
proof -
  let ?S = "demoSession silentClient LlmMode"
  let ?w = "\<lparr>posts = 0, trace = []\<rparr>"
  have cl: "is_client ?S = silentClient" and mode: "is_interviewerMode ?S = LlmMode"
    by (simp_all add: demoSession_def)
  have empty: "\<forall>payload w. \<exists>response w'.
      createChatCompletion (is_client ?S) payload w = (Inr response, w') \<and>
      cleanedText response = []"
    unfolding cl
    by (simp add: silentClient_replies cleanedText_def extractMessageText_def firstMessage_def)
  note T = interviewer_fallback_respondent_failure
    [of ?S "js ''is''" "[]" "js ''q1''" ?w "js ''rs''" "[js ''q2'']" "\<lambda>w. []"]
  from T empty obtain w1 where
    i: "requestContent (is_client ?S) (interviewerParams ?S (js ''is'') [] (js ''q1'')) ?w =
          (Inl (js ''interviewer response missing.''), w1)"
    and iw: "waitsOf (trace w1) = waitsOf (trace ?w) @ [1000, 2000]"
    by blast
  from T mode i have it: "interviewerTurn ?S (js ''is'') [] (js ''q1'') ?w = (js ''q1'', w1)"
    by blast
  from T empty obtain w2 where
    r: "requestContent (is_client ?S) (respondentParams ?S (js ''rs'') []) ?w =
          (Inl (js ''respondent response missing.''), w2)"
    and rw: "waitsOf (trace w2) = waitsOf (trace ?w) @ [1000, 2000, 3000, 4000]"
    by blast
  from i iw it r rw show ?thesis
    unfolding cl by (simp add: waitsOf_def)
qed


subsection \<open>The batch scheduler\<close>














lemmas demo_defs2 = demoSession_def demoClient_def silentClient_def demoPersona_def LlmClient_def
  demoConfig_def demoPersonaOf_def storedSession_def batchEnv_def
lemmas eval_defs2 = run_def
     requestContent_def requestLoop.simps createChatCompletion_def createLoop.simps
     interviewerTurn_def respondentParams_def interviewerParams_def emit_def doPost_def cleanedText_def
     extractMessageText_def firstMessage_def sanitizeContent_def trim_def isSpace_def
     tagAt_def tags_def lowerAscii_def js_def attemptMessages_def attemptPayload_def Let_def
     interviewerRetryPrompt_def





end
